theory Spec2Isabelle
  imports Complex_Main "HOL-Library.AList"
begin

section \<open>Data model of the tab manager (useTabManager.ts)\<close>

text \<open>
  The TypeScript types of the file become datatypes and records. A JavaScript
  \<open>number\<close> that the code only stores and copies is a \<open>real\<close> (so is
  \<open>lastActive\<close>, a \<open>Date.now()\<close> value); an array index is an \<open>int\<close>. A string
  the manager holds is a list of 8-bit characters. A JavaScript \<open>Map\<close> is an association
  list: it keeps insertion order, \<open>set\<close> on a present key replaces the value in place
  (\<open>AList.update\<close>) and \<open>delete\<close> removes the key (\<open>AList.delete\<close>).
\<close>

datatype ViewMode = Grid | List | Column | Media | SizeView

datatype SortBy = Name | Size | DateModified | DateCreated | Kind

text \<open>The field \<open>sizeViewTransform: {k, x, y}\<close>; the selectors carry a prefix.\<close>

record SizeViewTransform =
  tr_k :: real
  tr_x :: real
  tr_y :: real

record TabExplorerState =
  viewMode :: ViewMode
  sortBy :: SortBy
  gridSize :: real
  gapSize :: real
  foldersFirst :: bool
  columnStack :: "string list"
  scrollTop :: real
  scrollLeft :: real
  sizeViewTransform :: SizeViewTransform

text \<open>
  \<open>Partial<TabExplorerState>\<close>: every property may be absent (\<open>None\<close>).
\<close>

record PartialTabExplorerState =
  p_viewMode :: "ViewMode option"
  p_sortBy :: "SortBy option"
  p_gridSize :: "real option"
  p_gapSize :: "real option"
  p_foldersFirst :: "bool option"
  p_columnStack :: "string list option"
  p_scrollTop :: "real option"
  p_scrollLeft :: "real option"
  p_sizeViewTransform :: "SizeViewTransform option"

definition DEFAULT_EXPLORER_STATE :: TabExplorerState where
  "DEFAULT_EXPLORER_STATE =
     \<lparr> viewMode = Grid, sortBy = Name, gridSize = 120, gapSize = 16,
       foldersFirst = True, columnStack = [], scrollTop = 0, scrollLeft = 0,
       sizeViewTransform = \<lparr> tr_k = 1, tr_x = 0, tr_y = 0 \<rparr> \<rparr>"

text \<open>The object spread \<open>{...current, ...updates}\<close>: a present property of
  \<open>updates\<close> replaces the one of \<open>current\<close>.\<close>

definition spread :: "TabExplorerState \<Rightarrow> PartialTabExplorerState \<Rightarrow> TabExplorerState" where
  "spread current updates =
     \<lparr> viewMode = (case p_viewMode updates of Some v \<Rightarrow> v | None \<Rightarrow> viewMode current),
       sortBy = (case p_sortBy updates of Some v \<Rightarrow> v | None \<Rightarrow> sortBy current),
       gridSize = (case p_gridSize updates of Some v \<Rightarrow> v | None \<Rightarrow> gridSize current),
       gapSize = (case p_gapSize updates of Some v \<Rightarrow> v | None \<Rightarrow> gapSize current),
       foldersFirst =
         (case p_foldersFirst updates of Some v \<Rightarrow> v | None \<Rightarrow> foldersFirst current),
       columnStack =
         (case p_columnStack updates of Some v \<Rightarrow> v | None \<Rightarrow> columnStack current),
       scrollTop = (case p_scrollTop updates of Some v \<Rightarrow> v | None \<Rightarrow> scrollTop current),
       scrollLeft = (case p_scrollLeft updates of Some v \<Rightarrow> v | None \<Rightarrow> scrollLeft current),
       sizeViewTransform =
         (case p_sizeViewTransform updates of Some v \<Rightarrow> v
          | None \<Rightarrow> sizeViewTransform current) \<rparr>"

text \<open>The literal \<open>{sortBy: 'size'}\<close>.\<close>

definition sortBySizeUpdate :: PartialTabExplorerState where
  "sortBySizeUpdate =
     \<lparr> p_viewMode = None, p_sortBy = Some Size, p_gridSize = None, p_gapSize = None,
       p_foldersFirst = None, p_columnStack = None, p_scrollTop = None,
       p_scrollLeft = None, p_sizeViewTransform = None \<rparr>"

section \<open>JavaScript strings and the order of properties\<close>

text \<open>
  A JavaScript string is a sequence of UTF-16 code units. The strings the manager holds
  and receives (ids, paths, the stored text) are modelled as \<open>string\<close>, a list of 8-bit
  characters: the code units below 256. A percent-escape or a \<open>\u\<close> escape can stand for
  any code unit, so what the platform functions compute from such a text is a list of code
  units (\<open>units\<close>, the code units as integers), and \<open>narrow\<close> says whether it is an 8-bit
  string again.
\<close>

type_synonym units = "int list"

definition code :: "char \<Rightarrow> int" where
  "code c = of_char c"

definition units :: "string \<Rightarrow> units" where
  "units s = map code s"

definition narrow :: "units \<Rightarrow> string option" where
  "narrow us = (if list_all (\<lambda>u. 0 \<le> u \<and> u < 256) us then Some (map char_of us) else None)"

definition isDigit :: "int \<Rightarrow> bool" where
  "isDigit n \<longleftrightarrow> 48 \<le> n \<and> n \<le> 57"

definition digitsVal :: "units \<Rightarrow> int" where
  "digitsVal ds = foldl (\<lambda>acc c. 10 * acc + (c - 48)) 0 ds"

text \<open>\<open>new Map(entries)\<close>: the entries are set one after the other, so a key
  that comes twice keeps its first place and its last value. The same holds of the
  properties of an object that are assigned one after the other.\<close>

definition mapOfEntries :: "('k \<times> 'v) list \<Rightarrow> ('k \<times> 'v) list" where
  "mapOfEntries entries = foldl (\<lambda>m (k, v). AList.update k v m) [] entries"

text \<open>
  The own properties of an object are enumerated (by \<open>Object.entries\<close>, by
  \<open>JSON.stringify\<close>, and on the result of \<open>Object.fromEntries\<close>) with the array
  indices first, in ascending order, and then the other names in the order of their
  creation. An array index is the decimal text, without a leading zero, of an integer
  below \<open>2^32 - 1\<close>. \<open>name\<close> gives the code units of a key.
\<close>

definition arrayIndex :: "units \<Rightarrow> int option" where
  "arrayIndex k =
     (if k \<noteq> [] \<and> list_all isDigit k \<and> (k = [48] \<or> take 1 k \<noteq> [48]) \<and> length k \<le> 10
         \<and> digitsVal k < 4294967295
      then Some (digitsVal k) else None)"

definition propertyOrder :: "('k \<Rightarrow> units) \<Rightarrow> ('k \<times> 'v) list \<Rightarrow> ('k \<times> 'v) list" where
  "propertyOrder name ps =
     sort_key (\<lambda>(k, v). case arrayIndex (name k) of Some n \<Rightarrow> n | None \<Rightarrow> 0)
       (filter (\<lambda>(k, v). arrayIndex (name k) \<noteq> None) ps)
     @ filter (\<lambda>(k, v). arrayIndex (name k) = None) ps"

text \<open>\<open>Object.entries(record)\<close> for an object given by the assignments that made
  it, in their order.\<close>

definition Object_entries :: "(string \<times> 'v) list \<Rightarrow> (string \<times> 'v) list" where
  "Object_entries record = propertyOrder units (mapOfEntries record)"

section \<open>The external explorer state store (class ExplorerStateStore)\<close>

text \<open>
  The store is private to the module, and \<open>subscribe\<close> is called in one place only,
  \<open>useTabExplorerState\<close>: a listener is the closure
  \<open>(changedTabId) => { if (changedTabId === '' || changedTabId === tabId) callback() }\<close>.
  It is modelled by its identity (a handle) and the tab id it captured.
  \<open>listeners\<close> is a \<open>Set\<close>: insertion order, no listener twice. React's
  \<open>callback\<close> schedules a re-read; it does not subscribe or unsubscribe while the store
  is calling its listeners.
\<close>

datatype ExplorerStateListener = Listener (handle: nat) (boundTab: string)

record ExplorerStateStore =
  states :: "(string \<times> TabExplorerState) list"
  listeners :: "ExplorerStateListener list"

text \<open>A call of a listener with its argument; every store operation returns the
  calls it made, in order, next to the store it leaves.\<close>

type_synonym listenerCall = "ExplorerStateListener \<times> string"

definition newExplorerStateStore :: ExplorerStateStore where
  "newExplorerStateStore = \<lparr> states = [], listeners = [] \<rparr>"

definition getState :: "ExplorerStateStore \<Rightarrow> string \<Rightarrow> TabExplorerState" where
  "getState store tabId =
     (case map_of (states store) tabId of Some s \<Rightarrow> s | None \<Rightarrow> DEFAULT_EXPLORER_STATE)"

definition notifyListeners :: "ExplorerStateStore \<Rightarrow> string \<Rightarrow> listenerCall list" where
  "notifyListeners store tabId = map (\<lambda>l. (l, tabId)) (listeners store)"

definition setState ::
  "string \<Rightarrow> TabExplorerState \<Rightarrow> ExplorerStateStore \<Rightarrow> listenerCall list \<times> ExplorerStateStore" where
  "setState tabId state store =
     (let store' = store\<lparr> states := AList.update tabId state (states store) \<rparr>
      in (notifyListeners store' tabId, store'))"

definition updateState ::
  "string \<Rightarrow> PartialTabExplorerState \<Rightarrow> ExplorerStateStore
     \<Rightarrow> listenerCall list \<times> ExplorerStateStore" where
  "updateState tabId updates store =
     (let current = (case map_of (states store) tabId of Some s \<Rightarrow> s
                     | None \<Rightarrow> DEFAULT_EXPLORER_STATE);
          store' = store\<lparr> states := AList.update tabId (spread current updates) (states store) \<rparr>
      in (notifyListeners store' tabId, store'))"

definition deleteState ::
  "string \<Rightarrow> ExplorerStateStore \<Rightarrow> listenerCall list \<times> ExplorerStateStore" where
  "deleteState tabId store =
     (let store' = store\<lparr> states := AList.delete tabId (states store) \<rparr>
      in (notifyListeners store' tabId, store'))"

text \<open>\<open>getAllStates\<close> returns the object \<open>Object.fromEntries(this.states)\<close>,
  given here by its properties in the order in which they are enumerated.\<close>

definition getAllStates :: "ExplorerStateStore \<Rightarrow> (string \<times> TabExplorerState) list" where
  "getAllStates store = propertyOrder units (states store)"

text \<open>\<open>loadFromRecord\<close> replaces the table by
  \<open>new Map(Object.entries(record))\<close> and calls every listener with the empty
  string. The record is an object, given by the assignments that made it.\<close>

definition loadFromRecord ::
  "(string \<times> TabExplorerState) list \<Rightarrow> ExplorerStateStore
     \<Rightarrow> listenerCall list \<times> ExplorerStateStore" where
  "loadFromRecord record store =
     (let store' = store\<lparr> states := mapOfEntries (Object_entries record) \<rparr>
      in (map (\<lambda>l. (l, '''')) (listeners store'), store'))"

definition subscribe :: "ExplorerStateListener \<Rightarrow> ExplorerStateStore \<Rightarrow> ExplorerStateStore" where
  "subscribe listener store =
     store\<lparr> listeners :=
       (if listener \<in> set (listeners store) then listeners store
        else listeners store @ [listener]) \<rparr>"

text \<open>The function \<open>subscribe\<close> returns: \<open>() => this.listeners.delete(listener)\<close>.\<close>

definition unsubscribe :: "ExplorerStateListener \<Rightarrow> ExplorerStateStore \<Rightarrow> ExplorerStateStore" where
  "unsubscribe listener store =
     store\<lparr> listeners := removeAll listener (listeners store) \<rparr>"

text \<open>What a listener made by \<open>useTabExplorerState\<close> does with a call: it
  runs React's \<open>callback\<close> (the consumer re-reads its state) or does nothing.\<close>

definition invokesCallback :: "ExplorerStateListener \<Rightarrow> string \<Rightarrow> bool" where
  "invokesCallback l changedTabId \<longleftrightarrow> changedTabId = '''' \<or> changedTabId = boundTab l"

definition callbackRuns :: "ExplorerStateListener \<Rightarrow> listenerCall list \<Rightarrow> nat" where
  "callbackRuns l calls =
     length (filter (\<lambda>(l', changed). l' = l \<and> invokesCallback l' changed) calls)"

text \<open>The store as its clients drive it: any sequence of calls of its methods on
  \<open>new ExplorerStateStore()\<close>.\<close>

datatype storeOp =
    SetState string TabExplorerState
  | UpdateState string PartialTabExplorerState
  | DeleteState string
  | LoadFromRecord "(string \<times> TabExplorerState) list"
  | Subscribe ExplorerStateListener
  | Unsubscribe ExplorerStateListener

fun storeStep :: "storeOp \<Rightarrow> ExplorerStateStore \<Rightarrow> listenerCall list \<times> ExplorerStateStore" where
  "storeStep (SetState t s) store = setState t s store"
| "storeStep (UpdateState t u) store = updateState t u store"
| "storeStep (DeleteState t) store = deleteState t store"
| "storeStep (LoadFromRecord r) store = loadFromRecord r store"
| "storeStep (Subscribe l) store = ([], subscribe l store)"
| "storeStep (Unsubscribe l) store = ([], unsubscribe l store)"

fun storeRun :: "storeOp list \<Rightarrow> ExplorerStateStore \<Rightarrow> ExplorerStateStore" where
  "storeRun [] store = store"
| "storeRun (op # ops) store = storeRun ops (snd (storeStep op store))"

section \<open>Platform functions the module calls\<close>

text \<open>
  The module calls string methods, \<open>URLSearchParams\<close>, \<open>decodeURIComponent\<close> and
  \<open>JSON.parse\<close> of the JavaScript platform; the documented examples also call
  \<open>encodeURIComponent\<close> and \<open>JSON.stringify\<close>. They are written out here after their
  standards (ECMAScript, ECMA-404, the WHATWG URL and Encoding standards), on code units
  and bytes. \<open>undefined\<close> and \<open>null\<close> results are \<open>None\<close>, and a thrown exception
  is \<open>None\<close> where the only caller catches it.
\<close>

text \<open>\<open>s.split(c)\<close> for a separator of one character: never an empty array.\<close>

fun splitOn :: "'a \<Rightarrow> 'a list \<Rightarrow> 'a list list" where
  "splitOn c [] = [[]]"
| "splitOn c (x # xs) =
     (if x = c then [] # splitOn c xs
      else (case splitOn c xs of w # ws \<Rightarrow> (x # w) # ws | [] \<Rightarrow> [[x]]))"

definition startsWith :: "string \<Rightarrow> string \<Rightarrow> bool" where
  "startsWith s p \<longleftrightarrow> take (length p) s = p"

text \<open>\<open>xs[i]\<close> on an array: \<open>undefined\<close> (\<open>None\<close>) outside the array.\<close>

definition at_index :: "'a list \<Rightarrow> int \<Rightarrow> 'a option" where
  "at_index xs i = (if 0 \<le> i \<and> i < int (length xs) then Some (xs ! nat i) else None)"

definition hexVal :: "int \<Rightarrow> int option" where
  "hexVal n =
     (if 48 \<le> n \<and> n \<le> 57 then Some (n - 48)
      else if 65 \<le> n \<and> n \<le> 70 then Some (n - 55)
      else if 97 \<le> n \<and> n \<le> 102 then Some (n - 87)
      else None)"

subsection \<open>UTF-8\<close>

text \<open>The UTF-8 bytes of a string of code units below 256 (no surrogates among
  them): one byte below 128, two bytes from there.\<close>

definition utf8OfNarrow :: "string \<Rightarrow> int list" where
  "utf8OfNarrow s =
     concat (map (\<lambda>c. if code c < 128 then [code c]
                        else [192 + code c div 64, 128 + code c mod 64]) s)"

text \<open>
  The UTF-8 decoder of the Encoding standard. Its state is the code point so far, the
  bytes seen and needed, and the bounds of the next byte. A step gives the items it
  emits: a code point, or \<open>None\<close> for an error. A byte that cannot continue a sequence
  ends it with an error and is read again as a first byte.
\<close>

datatype utf8State =
  Utf8State (codePoint: int) (bytesSeen: nat) (bytesNeeded: nat) (lowerBound: int) (upperBound: int)

definition utf8Start :: utf8State where
  "utf8Start = Utf8State 0 0 0 128 191"

definition utf8First :: "int \<Rightarrow> utf8State \<times> int option list" where
  "utf8First b =
     (if b \<le> 127 then (utf8Start, [Some b])
      else if 194 \<le> b \<and> b \<le> 223 then (Utf8State (b mod 32) 0 1 128 191, [])
      else if 224 \<le> b \<and> b \<le> 239 then
        (Utf8State (b mod 16) 0 2 (if b = 224 then 160 else 128) (if b = 237 then 159 else 191),
         [])
      else if 240 \<le> b \<and> b \<le> 244 then
        (Utf8State (b mod 8) 0 3 (if b = 240 then 144 else 128) (if b = 244 then 143 else 191),
         [])
      else (utf8Start, [None]))"

definition utf8Step :: "utf8State \<Rightarrow> int \<Rightarrow> utf8State \<times> int option list" where
  "utf8Step st b =
     (if bytesNeeded st = 0 then utf8First b
      else if b < lowerBound st \<or> upperBound st < b then
        (let (st', out) = utf8First b in (st', None # out))
      else
        (let cp = codePoint st * 64 + b mod 64
         in if Suc (bytesSeen st) = bytesNeeded st then (utf8Start, [Some cp])
            else (Utf8State cp (Suc (bytesSeen st)) (bytesNeeded st) 128 191, [])))"

fun utf8Run :: "utf8State \<Rightarrow> int list \<Rightarrow> int option list" where
  "utf8Run st [] = (if bytesNeeded st \<noteq> 0 then [None] else [])"
| "utf8Run st (b # bs) = (let (st', out) = utf8Step st b in out @ utf8Run st' bs)"

text \<open>A code point as UTF-16 code units.\<close>

definition utf16Units :: "int \<Rightarrow> units" where
  "utf16Units cp =
     (if cp < 65536 then [cp]
      else [55296 + (cp - 65536) div 1024, 56320 + (cp - 65536) mod 1024])"

text \<open>\<open>UTF-8 decode without BOM\<close>: an error becomes U+FFFD.\<close>

definition utf8Decode :: "int list \<Rightarrow> units" where
  "utf8Decode bytes =
     concat (map (\<lambda>item. case item of Some cp \<Rightarrow> utf16Units cp | None \<Rightarrow> [65533])
               (utf8Run utf8Start bytes))"

text \<open>The code point of bytes that are the UTF-8 encoding of exactly one code
  point.\<close>

definition utf8CodePoint :: "int list \<Rightarrow> int option" where
  "utf8CodePoint bytes = (case utf8Run utf8Start bytes of [Some cp] \<Rightarrow> Some cp | _ \<Rightarrow> None)"

subsection \<open>Percent-escapes\<close>

text \<open>Percent-decoding of the URL standard, on bytes: a \<open>%\<close> that two hexadecimal
  digits do not follow stays as it is.\<close>

fun percentDecode :: "int list \<Rightarrow> int list" where
  "percentDecode (c # h1 # h2 # cs) =
     (if c = code CHR ''%'' then
        (case (hexVal h1, hexVal h2) of
           (Some a, Some b) \<Rightarrow> (16 * a + b) # percentDecode cs
         | _ \<Rightarrow> c # percentDecode (h1 # h2 # cs))
      else c # percentDecode (h1 # h2 # cs))"
| "percentDecode (c # cs) = c # percentDecode cs"
| "percentDecode [] = []"

text \<open>
  \<open>decodeURIComponent\<close> (the operation \<open>Decode\<close> of ECMAScript), one code unit at a
  time. A \<open>%\<close> needs two hexadecimal digits. A byte below 128 is its character. A byte
  from 128 starts a UTF-8 sequence of two to four bytes, each further byte written as an
  escape of its own; the bytes must be the UTF-8 encoding of a code point. Anything else
  throws \<open>URIError\<close> (\<open>None\<close>).
\<close>

datatype decodeState =
    DPlain
  | DHex1 "int list" nat
  | DHex2 "int list" nat int
  | DPercent "int list" nat

text \<open>The length of the sequence a first byte announces (the number of its leading
  one bits): \<open>None\<close> for one and for more than four.\<close>

definition sequenceLength :: "int \<Rightarrow> nat option" where
  "sequenceLength b =
     (if 192 \<le> b \<and> b \<le> 223 then Some 2
      else if 224 \<le> b \<and> b \<le> 239 then Some 3
      else if 240 \<le> b \<and> b \<le> 247 then Some 4
      else None)"

definition decodeByte :: "int list \<Rightarrow> nat \<Rightarrow> int \<Rightarrow> (decodeState \<times> units) option" where
  "decodeByte octets n b =
     (if octets = [] then
        (if b < 128 then Some (DPlain, [b])
         else (case sequenceLength b of
                 None \<Rightarrow> None
               | Some len \<Rightarrow> Some (DPercent [b] len, [])))
      else
        (let octets' = octets @ [b]
         in if length octets' = n then
              (case utf8CodePoint octets' of
                 None \<Rightarrow> None
               | Some cp \<Rightarrow> Some (DPlain, utf16Units cp))
            else Some (DPercent octets' n, [])))"

definition decodeStep :: "decodeState \<Rightarrow> int \<Rightarrow> (decodeState \<times> units) option" where
  "decodeStep st c =
     (case st of
        DPlain \<Rightarrow> if c = code CHR ''%'' then Some (DHex1 [] 0, []) else Some (DPlain, [c])
      | DHex1 octets n \<Rightarrow>
          (case hexVal c of None \<Rightarrow> None | Some hi \<Rightarrow> Some (DHex2 octets n hi, []))
      | DHex2 octets n hi \<Rightarrow>
          (case hexVal c of None \<Rightarrow> None | Some lo \<Rightarrow> decodeByte octets n (16 * hi + lo))
      | DPercent octets n \<Rightarrow>
          if c = code CHR ''%'' then Some (DHex1 octets n, []) else None)"

fun decodeRun :: "decodeState \<Rightarrow> units \<Rightarrow> units option" where
  "decodeRun st [] = (if st = DPlain then Some [] else None)"
| "decodeRun st (c # cs) =
     (case decodeStep st c of
        None \<Rightarrow> None
      | Some (st', out) \<Rightarrow> map_option (\<lambda>r. out @ r) (decodeRun st' cs))"

definition decodeURIComponent :: "units \<Rightarrow> units option" where
  "decodeURIComponent us = decodeRun DPlain us"

definition hexDigit :: "int \<Rightarrow> char" where
  "hexDigit n = (if n < 10 then char_of (48 + n) else char_of (55 + n))"

text \<open>\<open>encodeURIComponent\<close> on a string of code units below 256: letters, digits
  and \<open>- _ . ! ~ * ' ( )\<close> stay, every other character becomes the escapes \<open>%XX\<close> of
  its UTF-8 bytes.\<close>

definition uriUnreserved :: "int \<Rightarrow> bool" where
  "uriUnreserved n \<longleftrightarrow>
     (48 \<le> n \<and> n \<le> 57) \<or> (65 \<le> n \<and> n \<le> 90) \<or> (97 \<le> n \<and> n \<le> 122)
      \<or> n \<in> {45, 95, 46, 33, 126, 42, 39, 40, 41}"

definition percentEscape :: "int \<Rightarrow> string" where
  "percentEscape b = [CHR ''%'', hexDigit (b div 16), hexDigit (b mod 16)]"

fun encodeURIComponent :: "string \<Rightarrow> string" where
  "encodeURIComponent [] = []"
| "encodeURIComponent (c # cs) =
     (if uriUnreserved (code c) then c # encodeURIComponent cs
      else concat (map percentEscape (utf8OfNarrow [c])) @ encodeURIComponent cs)"

subsection \<open>\<open>URLSearchParams\<close>\<close>

text \<open>\<open>new URLSearchParams(search)\<close>: a leading \<open>?\<close> is dropped and the rest is
  parsed as \<open>application/x-www-form-urlencoded\<close>: its UTF-8 bytes are split at \<open>&\<close>,
  empty pieces are skipped, each piece is split at its first \<open>=\<close>, \<open>+\<close> becomes a space,
  and name and value are percent-decoded and decoded as UTF-8. \<open>get\<close> returns the first
  value of a name, or \<open>null\<close>.\<close>

definition plusToSpace :: "int list \<Rightarrow> int list" where
  "plusToSpace s = map (\<lambda>c. if c = code CHR ''+'' then code CHR '' '' else c) s"

definition parsePair :: "int list \<Rightarrow> units \<times> units" where
  "parsePair piece =
     (let name = takeWhile (\<lambda>c. c \<noteq> code CHR ''='') piece;
          val = drop (Suc (length name)) piece
      in (utf8Decode (percentDecode (plusToSpace name)),
          utf8Decode (percentDecode (plusToSpace val))))"

definition URLSearchParams :: "string \<Rightarrow> (units \<times> units) list" where
  "URLSearchParams init =
     (let s = (case init of c # cs \<Rightarrow> if c = CHR ''?'' then cs else init | [] \<Rightarrow> init)
      in map parsePair
           (filter (\<lambda>piece. piece \<noteq> []) (splitOn (code CHR ''&'') (utf8OfNarrow s))))"

definition params_get :: "(units \<times> units) list \<Rightarrow> string \<Rightarrow> units option" where
  "params_get params name = map_of params (units name)"

subsection \<open>JSON values and \<open>JSON.parse\<close>\<close>

text \<open>
  A parsed JSON value. A string and a member name are lists of code units. An object
  keeps its members in the order of the text; reading a property takes the last member
  of that name, as \<open>JSON.parse\<close> keeps the last duplicate. Numbers are exact reals (the
  rounding to doubles is not modelled).
\<close>

datatype json =
    JNull
  | JBool bool
  | JNum real
  | JStr units
  | JArr "json list"
  | JObj "(units \<times> json) list"

text \<open>A string value and an object written with 8-bit strings.\<close>

definition str :: "string \<Rightarrow> json" where
  "str s = JStr (units s)"

definition obj :: "(string \<times> json) list \<Rightarrow> json" where
  "obj ms = JObj (map (\<lambda>(k, v). (units k, v)) ms)"

datatype token =
    TLBrace | TRBrace | TLBrack | TRBrack | TColon | TComma
  | TStr units | TNum real | TTrue | TFalse | TNull

text \<open>The exponent part of a number: nothing, or \<open>e\<close>, an optional sign and
  digits.\<close>

definition numExponent :: "units \<Rightarrow> int option" where
  "numExponent s =
     (case s of
        [] \<Rightarrow> Some 0
      | e # rest \<Rightarrow>
          if e = code CHR ''e'' \<or> e = code CHR ''E'' then
            (let (neg, ds) = (case rest of
                                c # cs \<Rightarrow> if c = code CHR ''-'' then (True, cs)
                                          else if c = code CHR ''+'' then (False, cs)
                                          else (False, rest)
                              | [] \<Rightarrow> (False, rest))
             in if ds \<noteq> [] \<and> list_all isDigit ds
                then Some (if neg then - digitsVal ds else digitsVal ds)
                else None)
          else None)"

text \<open>A number of the JSON grammar:
  \<open>-? (0 | [1-9][0-9]*) (. [0-9]+)? ([eE] [+-]? [0-9]+)?\<close>.\<close>

definition numberOfLexeme :: "units \<Rightarrow> real option" where
  "numberOfLexeme s =
     (let (neg, s1) = (case s of c # cs \<Rightarrow> if c = code CHR ''-'' then (True, cs) else (False, s)
                       | [] \<Rightarrow> (False, s));
          ip = takeWhile isDigit s1;
          s2 = dropWhile isDigit s1;
          (fp, s3) = (case s2 of
                        c # cs \<Rightarrow> if c = code CHR ''.''
                                  then (Some (takeWhile isDigit cs), dropWhile isDigit cs)
                                  else (None, s2)
                      | [] \<Rightarrow> (None, s2))
      in if ip = [] \<or> (length ip > 1 \<and> take 1 ip = [code CHR ''0'']) \<or> fp = Some [] then None
         else (case numExponent s3 of
                 None \<Rightarrow> None
               | Some ex \<Rightarrow>
                   (let fd = (case fp of Some d \<Rightarrow> d | None \<Rightarrow> []);
                        mant = of_int (digitsVal (ip @ fd)) / 10 ^ length fd;
                        v = (if 0 \<le> ex then mant * 10 ^ nat ex else mant / 10 ^ nat (- ex))
                    in Some (if neg then - v else v))))"

definition literalToken :: "units \<Rightarrow> token option" where
  "literalToken s =
     (if s = units ''true'' then Some TTrue
      else if s = units ''false'' then Some TFalse
      else if s = units ''null'' then Some TNull
      else None)"

text \<open>
  The lexer reads one code unit at a time. Its mode says what it is inside of: nothing,
  a string (the code units read so far, last first), an escape, a \<open>\u\<close> escape (with
  the hexadecimal digits read so far), a number or a literal name.
\<close>

datatype lexMode =
    LStart
  | LStr units
  | LEsc units
  | LUni units "int list"
  | LNum units
  | LLit units

definition isNumChar :: "int \<Rightarrow> bool" where
  "isNumChar c \<longleftrightarrow>
     isDigit c \<or> c \<in> code ` {CHR ''-'', CHR ''+'', CHR ''.'', CHR ''e'', CHR ''E''}"

definition isLower :: "int \<Rightarrow> bool" where
  "isLower n \<longleftrightarrow> 97 \<le> n \<and> n \<le> 122"

definition isWhitespace :: "int \<Rightarrow> bool" where
  "isWhitespace n \<longleftrightarrow> n \<in> {32, 9, 10, 13}"

definition punctuation :: "int \<Rightarrow> token option" where
  "punctuation c =
     (if c = code CHR ''{'' then Some TLBrace
      else if c = code CHR ''}'' then Some TRBrace
      else if c = code CHR ''['' then Some TLBrack
      else if c = code CHR '']'' then Some TRBrack
      else if c = code CHR '':'' then Some TColon
      else if c = code CHR '','' then Some TComma
      else None)"

definition escapeChar :: "int \<Rightarrow> int option" where
  "escapeChar c =
     (if c = 34 \<or> c = 92 \<or> c = code CHR ''/'' then Some c
      else if c = code CHR ''b'' then Some 8
      else if c = code CHR ''f'' then Some 12
      else if c = code CHR ''n'' then Some 10
      else if c = code CHR ''r'' then Some 13
      else if c = code CHR ''t'' then Some 9
      else None)"

definition lexStart :: "token list \<Rightarrow> int \<Rightarrow> (lexMode \<times> token list) option" where
  "lexStart toks c =
     (if isWhitespace c then Some (LStart, toks)
      else if c = 34 then Some (LStr [], toks)
      else if c = code CHR ''-'' \<or> isDigit c then Some (LNum [c], toks)
      else if isLower c then Some (LLit [c], toks)
      else (case punctuation c of Some t \<Rightarrow> Some (LStart, t # toks) | None \<Rightarrow> None))"

text \<open>One code unit (34 is the double quote, 92 the backslash). The code unit that
  ends a number or a literal name is read again as the start of the next token.\<close>

definition lexStep :: "lexMode \<Rightarrow> token list \<Rightarrow> int \<Rightarrow> (lexMode \<times> token list) option" where
  "lexStep mode toks c =
     (case mode of
        LStart \<Rightarrow> lexStart toks c
      | LStr acc \<Rightarrow>
          (if c = 34 then Some (LStart, TStr (rev acc) # toks)
           else if c = 92 then Some (LEsc acc, toks)
           else if c < 32 then None
           else Some (LStr (c # acc), toks))
      | LEsc acc \<Rightarrow>
          (if c = code CHR ''u'' then Some (LUni acc [], toks)
           else (case escapeChar c of Some e \<Rightarrow> Some (LStr (e # acc), toks) | None \<Rightarrow> None))
      | LUni acc ds \<Rightarrow>
          (case hexVal c of
             None \<Rightarrow> None
           | Some d \<Rightarrow>
               (if length ds < 3 then Some (LUni acc (ds @ [d]), toks)
                else Some (LStr (foldl (\<lambda>a b. 16 * a + b) 0 (ds @ [d]) # acc), toks)))
      | LNum acc \<Rightarrow>
          (if isNumChar c then Some (LNum (c # acc), toks)
           else (case numberOfLexeme (rev acc) of
                   None \<Rightarrow> None
                 | Some r \<Rightarrow> lexStart (TNum r # toks) c))
      | LLit acc \<Rightarrow>
          (if isLower c then Some (LLit (c # acc), toks)
           else (case literalToken (rev acc) of
                   None \<Rightarrow> None
                 | Some t \<Rightarrow> lexStart (t # toks) c)))"

text \<open>The end of the text: inside a string it is an error, a number or a literal
  name is finished.\<close>

definition lexEnd :: "lexMode \<Rightarrow> token list \<Rightarrow> token list option" where
  "lexEnd mode toks =
     (case mode of
        LStart \<Rightarrow> Some (rev toks)
      | LNum acc \<Rightarrow> map_option (\<lambda>r. rev (TNum r # toks)) (numberOfLexeme (rev acc))
      | LLit acc \<Rightarrow> map_option (\<lambda>t. rev (t # toks)) (literalToken (rev acc))
      | _ \<Rightarrow> None)"

fun lex :: "lexMode \<Rightarrow> token list \<Rightarrow> units \<Rightarrow> token list option" where
  "lex mode toks [] = lexEnd mode toks"
| "lex mode toks (c # cs) =
     (case lexStep mode toks c of
        Some (mode', toks') \<Rightarrow> lex mode' toks' cs
      | None \<Rightarrow> None)"

text \<open>
  The parser is a pushdown automaton over the tokens. A frame of the stack is an open
  array (its values so far, last first), an open object (its members so far) or an
  open object whose next member has its name and waits for its value.
\<close>

datatype frame =
    FArr "json list"
  | FObj "(units \<times> json) list"
  | FKey "(units \<times> json) list" units

datatype parseState =
    PValue
  | PValueOrClose
  | PKeyOrClose
  | PKey
  | PColon
  | PAfterValue
  | PDone json

text \<open>A finished value goes to the frame on top of the stack, or is the result.\<close>

fun pushValue :: "json \<Rightarrow> frame list \<Rightarrow> (parseState \<times> frame list) option" where
  "pushValue v [] = Some (PDone v, [])"
| "pushValue v (FArr vs # st) = Some (PAfterValue, FArr (v # vs) # st)"
| "pushValue v (FKey ms k # st) = Some (PAfterValue, FObj ((k, v) # ms) # st)"
| "pushValue v (FObj ms # st) = None"

definition scalarOfToken :: "token \<Rightarrow> json option" where
  "scalarOfToken t =
     (case t of TStr s \<Rightarrow> Some (JStr s) | TNum r \<Rightarrow> Some (JNum r) | TTrue \<Rightarrow> Some (JBool True)
      | TFalse \<Rightarrow> Some (JBool False) | TNull \<Rightarrow> Some JNull | _ \<Rightarrow> None)"

definition startValue :: "token \<Rightarrow> frame list \<Rightarrow> (parseState \<times> frame list) option" where
  "startValue t st =
     (case t of
        TLBrack \<Rightarrow> Some (PValueOrClose, FArr [] # st)
      | TLBrace \<Rightarrow> Some (PKeyOrClose, FObj [] # st)
      | _ \<Rightarrow> (case scalarOfToken t of Some v \<Rightarrow> pushValue v st | None \<Rightarrow> None))"

definition closeArray :: "frame list \<Rightarrow> (parseState \<times> frame list) option" where
  "closeArray st = (case st of FArr vs # st' \<Rightarrow> pushValue (JArr (rev vs)) st' | _ \<Rightarrow> None)"

definition closeObject :: "frame list \<Rightarrow> (parseState \<times> frame list) option" where
  "closeObject st = (case st of FObj ms # st' \<Rightarrow> pushValue (JObj (rev ms)) st' | _ \<Rightarrow> None)"

definition memberName :: "token \<Rightarrow> frame list \<Rightarrow> (parseState \<times> frame list) option" where
  "memberName t st =
     (case (t, st) of (TStr k, FObj ms # st') \<Rightarrow> Some (PColon, FKey ms k # st') | _ \<Rightarrow> None)"

definition parseStep ::
  "parseState \<Rightarrow> frame list \<Rightarrow> token \<Rightarrow> (parseState \<times> frame list) option" where
  "parseStep ps st t =
     (case ps of
        PValue \<Rightarrow> startValue t st
      | PValueOrClose \<Rightarrow> (if t = TRBrack then closeArray st else startValue t st)
      | PKeyOrClose \<Rightarrow> (if t = TRBrace then closeObject st else memberName t st)
      | PKey \<Rightarrow> memberName t st
      | PColon \<Rightarrow> (if t = TColon then Some (PValue, st) else None)
      | PAfterValue \<Rightarrow>
          (case st of
             FArr vs # _ \<Rightarrow>
               (if t = TComma then Some (PValue, st)
                else if t = TRBrack then closeArray st else None)
           | FObj ms # _ \<Rightarrow>
               (if t = TComma then Some (PKey, st)
                else if t = TRBrace then closeObject st else None)
           | _ \<Rightarrow> None)
      | PDone v \<Rightarrow> None)"

fun parseTokens :: "parseState \<Rightarrow> frame list \<Rightarrow> token list \<Rightarrow> json option" where
  "parseTokens ps st [] = (case (ps, st) of (PDone v, []) \<Rightarrow> Some v | _ \<Rightarrow> None)"
| "parseTokens ps st (t # ts) =
     (case parseStep ps st t of
        Some (ps', st') \<Rightarrow> parseTokens ps' st' ts
      | None \<Rightarrow> None)"

text \<open>\<open>JSON.parse(text)\<close>: the value, or \<open>None\<close> for a \<open>SyntaxError\<close>; first for a
  text of code units, then for an 8-bit text.\<close>

definition JSON_parseUnits :: "units \<Rightarrow> json option" where
  "JSON_parseUnits us =
     (case lex LStart [] us of Some toks \<Rightarrow> parseTokens PValue [] toks | None \<Rightarrow> None)"

definition JSON_parse :: "string \<Rightarrow> json option" where
  "JSON_parse s = JSON_parseUnits (units s)"

text \<open>
  Reading a property of a parsed value, for the names this module reads (\<open>Physical\<close>,
  \<open>path\<close>, \<open>tabs\<close>, \<open>activeTabId\<close>, \<open>explorerStates\<close>, \<open>defaultNewTabPath\<close> and the
  fields of a tab and of an explorer state), none of which a prototype defines:
  an object gives its last member of that name, every other value but \<open>null\<close> gives
  \<open>undefined\<close>. Reading a property of \<open>null\<close> throws a \<open>TypeError\<close>, which is the
  caller's case to write.
\<close>

definition getProp :: "json \<Rightarrow> string \<Rightarrow> json option" where
  "getProp v name = (case v of JObj ms \<Rightarrow> map_of (rev ms) (units name) | _ \<Rightarrow> None)"

text \<open>The optional chaining \<open>v?.name\<close> on a value that may be \<open>undefined\<close>.\<close>

definition optChain :: "json option \<Rightarrow> string \<Rightarrow> json option" where
  "optChain v name =
     (case v of None \<Rightarrow> None | Some JNull \<Rightarrow> None | Some w \<Rightarrow> getProp w name)"

text \<open>A value in a condition: \<open>undefined\<close>, \<open>null\<close>, \<open>false\<close>, \<open>0\<close> and \<open>''\<close>
  are falsy.\<close>

definition truthy :: "json option \<Rightarrow> bool" where
  "truthy v =
     (case v of
        None \<Rightarrow> False
      | Some JNull \<Rightarrow> False
      | Some (JBool b) \<Rightarrow> b
      | Some (JNum r) \<Rightarrow> r \<noteq> 0
      | Some (JStr s) \<Rightarrow> s \<noteq> []
      | Some _ \<Rightarrow> True)"

subsection \<open>\<open>JSON.stringify\<close>\<close>

text \<open>The own properties of a parsed object, in the order in which they are
  enumerated: one per name.\<close>

definition ownProperties :: "(units \<times> json) list \<Rightarrow> (units \<times> json) list" where
  "ownProperties ms = propertyOrder id (mapOfEntries ms)"

text \<open>
  \<open>JSON.stringify(value)\<close> for a value of the kinds above, without indentation: the
  own properties of an object in their order, strings quoted with the escapes of ECMAScript's
  \<open>QuoteJSONString\<close>. The result is given where it is an 8-bit text: a number is
  written when it is an integer below \<open>10^21\<close> in size (its decimal digits), a string
  when it has no code unit from 256 but lone surrogates, which are escaped; the text of
  any other value is not modelled (\<open>None\<close>).
\<close>

function decimalDigits :: "int \<Rightarrow> string" where
  "decimalDigits n =
     (if n < 10 then [char_of (48 + n)]
      else decimalDigits (n div 10) @ [char_of (48 + n mod 10)])"
  by pat_completeness auto

termination
  by (relation "measure nat") auto

definition hexDigitLower :: "int \<Rightarrow> char" where
  "hexDigitLower n = (if n < 10 then char_of (48 + n) else char_of (87 + n))"

definition unicodeEscape :: "int \<Rightarrow> string" where
  "unicodeEscape u =
     [CHR 0x5C, CHR ''u'', hexDigitLower (u div 4096), hexDigitLower (u div 256 mod 16),
      hexDigitLower (u div 16 mod 16), hexDigitLower (u mod 16)]"

definition isHighSurrogate :: "int \<Rightarrow> bool" where
  "isHighSurrogate u \<longleftrightarrow> 55296 \<le> u \<and> u \<le> 56319"

definition isLowSurrogate :: "int \<Rightarrow> bool" where
  "isLowSurrogate u \<longleftrightarrow> 56320 \<le> u \<and> u \<le> 57343"

fun quoteUnits :: "units \<Rightarrow> string option" where
  "quoteUnits [] = Some []"
| "quoteUnits (u # us) =
     (if u < 256 then
        map_option
          (\<lambda>r. (if u = 34 then [CHR 0x5C, CHR 0x22]
                 else if u = 92 then [CHR 0x5C, CHR 0x5C]
                 else if u = 8 then [CHR 0x5C, CHR ''b'']
                 else if u = 12 then [CHR 0x5C, CHR ''f'']
                 else if u = 10 then [CHR 0x5C, CHR ''n'']
                 else if u = 13 then [CHR 0x5C, CHR ''r'']
                 else if u = 9 then [CHR 0x5C, CHR ''t'']
                 else if u < 32 then unicodeEscape u
                 else [char_of u]) @ r)
          (quoteUnits us)
      else if isHighSurrogate u \<and> (case us of l # _ \<Rightarrow> isLowSurrogate l | [] \<Rightarrow> False) then None
      else if isHighSurrogate u \<or> isLowSurrogate u then
        map_option (\<lambda>r. unicodeEscape u @ r) (quoteUnits us)
      else None)"

definition quoteString :: "units \<Rightarrow> string option" where
  "quoteString s = map_option (\<lambda>q. CHR 0x22 # q @ [CHR 0x22]) (quoteUnits s)"

definition numberText :: "real \<Rightarrow> string option" where
  "numberText r =
     (if r = of_int \<lfloor>r\<rfloor> \<and> \<bar>r\<bar> < 10 ^ 21
      then Some ((if r < 0 then ''-'' else []) @ decimalDigits \<bar>\<lfloor>r\<rfloor>\<bar>)
      else None)"

fun commaJoin :: "string list \<Rightarrow> string" where
  "commaJoin [] = []"
| "commaJoin [t] = t"
| "commaJoin (t # ts) = t @ '','' @ commaJoin ts"

function JSON_stringify :: "json \<Rightarrow> string option" where
  "JSON_stringify JNull = Some ''null''"
| "JSON_stringify (JBool b) = Some (if b then ''true'' else ''false'')"
| "JSON_stringify (JNum r) = numberText r"
| "JSON_stringify (JStr s) = quoteString s"
| "JSON_stringify (JArr xs) =
     map_option (\<lambda>ts. ''['' @ commaJoin ts @ '']'') (those (map JSON_stringify xs))"
| "JSON_stringify (JObj ms) =
     map_option (\<lambda>ts. ''{'' @ commaJoin ts @ ''}'')
       (those (map (\<lambda>(k, v). case (quoteString k, JSON_stringify v) of
                               (Some q, Some t) \<Rightarrow> Some (q @ '':'' @ t)
                             | _ \<Rightarrow> None)
                (ownProperties ms)))"
  by pat_completeness auto

termination
proof (relation "measure size")
  fix ms :: "(units \<times> json) list" and z :: "units \<times> json" and y :: json and x :: units
  assume "z \<in> set (ownProperties ms)" and "(x, y) = z"
  then have "(x, y) \<in> set (mapOfEntries ms)"
    by (auto simp: ownProperties_def propertyOrder_def)
  moreover have upd: "set (AList.update k v al) \<subseteq> insert (k, v) (set al)"
    for k :: units and v :: json and al
    by (induction al) auto
  have "set (foldl (\<lambda>m (k, v). AList.update k v m) acc ps) \<subseteq> set acc \<union> set ps"
    for acc ps :: "(units \<times> json) list"
  proof (induction ps arbitrary: acc)
    case Nil
    then show ?case by simp
  next
    case (Cons p ps)
    obtain k v where p: "p = (k, v)" by (cases p)
    from Cons [of "AList.update k v acc"] upd [of k v acc] p show ?case
      by auto
  qed
  ultimately have "(x, y) \<in> set ms"
    unfolding mapOfEntries_def by fastforce
  then have "size y < size (JObj ms)"
    by (induction ms) auto
  then show "(y, JObj ms) \<in> measure size"
    by simp
qed (auto simp: termination_simp)

section \<open>The title deriver (deriveTitleFromPath)\<close>

text \<open>
  \<open>routeTitles\<close> is an object literal, so \<open>routeTitles[pathname]\<close> also finds the
  members every object inherits from \<open>Object.prototype\<close>: for such a pathname the
  function returns that member (a function or an object, truthy), not a string. A title
  is therefore a text or an inherited member, named by its property name. A text is a
  \<open>string\<close>, or, when it has a code unit from 256, its code units (\<open>WideText\<close>).
\<close>

datatype TitleValue = Text string | WideText units | Inherited string

definition textValue :: "units \<Rightarrow> TitleValue" where
  "textValue us = (case narrow us of Some s \<Rightarrow> Text s | None \<Rightarrow> WideText us)"

definition routeTitles :: "(string \<times> string) list" where
  "routeTitles =
     [(''/'', ''Overview''),
      (''/favorites'', ''Favorites''),
      (''/recents'', ''Recents''),
      (''/file-kinds'', ''File Kinds''),
      (''/search'', ''Search''),
      (''/jobs'', ''Jobs''),
      (''/daemon'', ''Daemon'')]"

definition objectPrototypeMembers :: "string list" where
  "objectPrototypeMembers =
     [''constructor'', ''hasOwnProperty'', ''isPrototypeOf'', ''propertyIsEnumerable'',
      ''toLocaleString'', ''toString'', ''valueOf'', ''__proto__'', ''__defineGetter__'',
      ''__defineSetter__'', ''__lookupGetter__'', ''__lookupSetter__'']"

definition routeTitlesAt :: "string \<Rightarrow> TitleValue option" where
  "routeTitlesAt pathname =
     (case map_of routeTitles pathname of
        Some t \<Rightarrow> Some (Text t)
      | None \<Rightarrow> if pathname \<in> set objectPrototypeMembers then Some (Inherited pathname)
                else None)"

definition truthyTitle :: "TitleValue option \<Rightarrow> bool" where
  "truthyTitle v =
     (case v of
        None \<Rightarrow> False
      | Some (Text t) \<Rightarrow> t \<noteq> []
      | Some (WideText us) \<Rightarrow> us \<noteq> []
      | Some (Inherited _) \<Rightarrow> True)"

text \<open>
  The \<open>try\<close> block of the explorer branch: \<open>Some\<close> title when it returns, \<open>None\<close>
  when control leaves it without a return (the condition is false, or
  \<open>decodeURIComponent\<close>, \<open>JSON.parse\<close> or the call of \<open>split\<close> on a value that is
  not a string throws, and \<open>catch\<close> falls through).
\<close>

definition physicalPathTitle :: "units \<Rightarrow> TitleValue option" where
  "physicalPathTitle pathParam =
     (case decodeURIComponent pathParam of
        None \<Rightarrow> None
      | Some decoded \<Rightarrow>
          (case JSON_parseUnits decoded of
             None \<Rightarrow> None
           | Some sdPath \<Rightarrow>
               (let p = optChain (optChain (Some sdPath) ''Physical'') ''path''
                in if truthy p then
                     (case p of
                        Some (JStr fullPath) \<Rightarrow>
                          (let parts = filter (\<lambda>part. part \<noteq> [])
                                         (splitOn (code CHR ''/'') fullPath)
                           in Some (case at_index parts (int (length parts) - 1) of
                                      Some part \<Rightarrow>
                                        if part \<noteq> [] then textValue part else Text ''Explorer''
                                    | None \<Rightarrow> Text ''Explorer''))
                      | _ \<Rightarrow> None)
                   else None)))"

definition deriveTitleFromPath :: "string \<Rightarrow> string \<Rightarrow> TitleValue" where
  "deriveTitleFromPath pathname search =
     (if truthyTitle (routeTitlesAt pathname) then
        (case routeTitlesAt pathname of Some v \<Rightarrow> v | None \<Rightarrow> Text ''Spacedrive'')
      else if startsWith pathname ''/tag/'' then
        (case at_index (splitOn CHR ''/'' pathname) 2 of
           Some tagId \<Rightarrow>
             if tagId \<noteq> [] then Text (''Tag: '' @ take 8 tagId @ ''...'') else Text ''Tag''
         | None \<Rightarrow> Text ''Tag'')
      else if pathname = ''/explorer'' \<and> search \<noteq> [] then
        (let params = URLSearchParams search
         in if params_get params ''view'' = Some (units ''device'') then Text ''This Device''
            else (case params_get params ''path'' of
                    None \<Rightarrow> Text ''Explorer''
                  | Some pathParam \<Rightarrow>
                      if pathParam \<noteq> [] then
                        (case physicalPathTitle pathParam of
                           Some t \<Rightarrow> t
                         | None \<Rightarrow> Text ''Explorer'')
                      else Text ''Explorer''))
      else Text ''Spacedrive'')"

section \<open>Persistence (loadPersistedState)\<close>

datatype jsError = TypeError | StorageError

definition typeOf :: "json option \<Rightarrow> string" where
  "typeOf v =
     (case v of
        None \<Rightarrow> ''undefined''
      | Some JNull \<Rightarrow> ''object''
      | Some (JBool _) \<Rightarrow> ''boolean''
      | Some (JNum _) \<Rightarrow> ''number''
      | Some (JStr _) \<Rightarrow> ''string''
      | Some (JArr _) \<Rightarrow> ''object''
      | Some (JObj _) \<Rightarrow> ''object'')"

definition isArray :: "json option \<Rightarrow> bool" where
  "isArray v = (case v of Some (JArr _) \<Rightarrow> True | _ \<Rightarrow> False)"

text \<open>
  \<open>loadPersistedState\<close>, given what \<open>localStorage.getItem(STORAGE_KEY)\<close> does: it
  throws (\<open>Inl\<close>), or returns \<open>null\<close> or a string. The result is the parsed value
  as it is (the function returns \<open>parsed\<close>), or \<open>None\<close> for \<open>null\<close>. Every exception
  inside the \<open>try\<close> gives \<open>null\<close>: the one of \<open>getItem\<close>, the \<open>SyntaxError\<close> of
  \<open>JSON.parse\<close>, and the \<open>TypeError\<close> of \<open>parsed.tabs\<close> when \<open>parsed\<close> is \<open>null\<close>.
\<close>

definition loadPersistedState :: "jsError + string option \<Rightarrow> json option" where
  "loadPersistedState getItem =
     (case getItem of
        Inl _ \<Rightarrow> None
      | Inr None \<Rightarrow> None
      | Inr (Some stored) \<Rightarrow>
          if stored = [] then None
          else (case JSON_parse stored of
                  None \<Rightarrow> None
                | Some JNull \<Rightarrow> None
                | Some parsed \<Rightarrow>
                    if \<not> isArray (getProp parsed ''tabs'')
                       \<or> typeOf (getProp parsed ''activeTabId'') \<noteq> ''string''
                       \<or> typeOf (getProp parsed ''explorerStates'') \<noteq> ''object''
                    then None
                    else Some parsed))"

section \<open>Tabs and the tab manager (TabManagerProvider)\<close>

record Tab =
  tab_id :: string
  title :: TitleValue
  icon :: "string option"
  isPinned :: bool
  lastActive :: real
  savedPath :: string

text \<open>
  \<open>PersistedState\<close> as the initialisers read it. \<open>explorerStates\<close> may be \<open>null\<close>
  (\<open>None\<close>): \<open>typeof null\<close> is \<open>'object'\<close>, and the mount effect tests the member
  before it loads it. \<open>defaultNewTabPath\<close> is not validated and may be absent.
\<close>

record PersistedState =
  ps_tabs :: "Tab list"
  ps_activeTabId :: string
  ps_explorerStates :: "(string \<times> TabExplorerState) list option"
  ps_defaultNewTabPath :: "string option"

text \<open>
  The state of the provider: its four \<open>useState\<close> cells and the module's store.
  An operation runs against the state of the last render, so the \<open>activeTabId\<close> and
  \<open>tabs\<close> its closure captured are the current ones; operations run one at a time
  (a render between any two).
\<close>

record TabManager =
  tabs :: "Tab list"
  activeTabId :: string
  selectionStates :: "(string \<times> string list) list"
  defaultNewTabPath :: string
  explorerStateStore :: ExplorerStateStore

text \<open>\<open>xs.findIndex(p)\<close>: the first index where \<open>p\<close> holds, or \<open>-1\<close>.\<close>

fun findIndex :: "('a \<Rightarrow> bool) \<Rightarrow> 'a list \<Rightarrow> int" where
  "findIndex p [] = - 1"
| "findIndex p (x # xs) =
     (if p x then 0 else (let i = findIndex p xs in if i = - 1 then - 1 else i + 1))"

text \<open>The remainder \<open>a % b\<close> of JavaScript for integers and \<open>b \<noteq> 0\<close>: it has the
  sign of \<open>a\<close>. (\<open>a % 0\<close> is \<open>NaN\<close>, which the callers write out.)\<close>

definition jsRem :: "int \<Rightarrow> int \<Rightarrow> int" where
  "jsRem a b = sgn a * (\<bar>a\<bar> mod \<bar>b\<bar>)"

text \<open>\<open>tabs[0].id\<close> on a list of tabs: a \<open>TypeError\<close> on an empty array.\<close>

definition firstTabId :: "Tab list \<Rightarrow> jsError + string" where
  "firstTabId ts = (case ts of t # _ \<Rightarrow> Inr (tab_id t) | [] \<Rightarrow> Inl TypeError)"

section \<open>The persisted snapshot at its declared type\<close>

text \<open>
  \<open>JSON.parse(stored) as PersistedState\<close> is an unchecked cast: the initialisers read
  the members of the parsed value at the types \<open>PersistedState\<close> declares. The
  functions of this section say which typed record a parsed value is. They are
  defined (\<open>Some\<close>) where every member has its declared type and every string but a
  title is an 8-bit string; \<open>explorerStates\<close> may also be \<open>null\<close> and
  \<open>defaultNewTabPath\<close> may be absent or \<open>null\<close>. The provider state that another
  parsed value leads to is outside the type \<open>TabManager\<close>.
\<close>

definition viewModeOfString :: "string \<Rightarrow> ViewMode option" where
  "viewModeOfString s =
     (if s = ''grid'' then Some Grid
      else if s = ''list'' then Some List
      else if s = ''column'' then Some Column
      else if s = ''media'' then Some Media
      else if s = ''size'' then Some SizeView
      else None)"

definition sortByOfString :: "string \<Rightarrow> SortBy option" where
  "sortByOfString s =
     (if s = ''name'' then Some Name
      else if s = ''size'' then Some Size
      else if s = ''date_modified'' then Some DateModified
      else if s = ''date_created'' then Some DateCreated
      else if s = ''kind'' then Some Kind
      else None)"

definition stringOfJson :: "json option \<Rightarrow> string option" where
  "stringOfJson v = (case v of Some (JStr s) \<Rightarrow> narrow s | _ \<Rightarrow> None)"

definition titleOfJson :: "json option \<Rightarrow> TitleValue option" where
  "titleOfJson v = (case v of Some (JStr s) \<Rightarrow> Some (textValue s) | _ \<Rightarrow> None)"

definition numberOfJson :: "json option \<Rightarrow> real option" where
  "numberOfJson v = (case v of Some (JNum r) \<Rightarrow> Some r | _ \<Rightarrow> None)"

definition boolOfJson :: "json option \<Rightarrow> bool option" where
  "boolOfJson v = (case v of Some (JBool b) \<Rightarrow> Some b | _ \<Rightarrow> None)"

definition stringsOfJson :: "json option \<Rightarrow> string list option" where
  "stringsOfJson v =
     (case v of Some (JArr xs) \<Rightarrow> those (map (\<lambda>x. stringOfJson (Some x)) xs) | _ \<Rightarrow> None)"

definition transformOfJson :: "json option \<Rightarrow> SizeViewTransform option" where
  "transformOfJson v =
     (case v of
        Some (JObj ms) \<Rightarrow>
          (case (numberOfJson (getProp (JObj ms) ''k''), numberOfJson (getProp (JObj ms) ''x''),
                 numberOfJson (getProp (JObj ms) ''y'')) of
             (Some k, Some x, Some y) \<Rightarrow> Some \<lparr> tr_k = k, tr_x = x, tr_y = y \<rparr>
           | _ \<Rightarrow> None)
      | _ \<Rightarrow> None)"

definition explorerStateOfJson :: "json \<Rightarrow> TabExplorerState option" where
  "explorerStateOfJson j =
     (case (Option.bind (stringOfJson (getProp j ''viewMode'')) viewModeOfString,
            Option.bind (stringOfJson (getProp j ''sortBy'')) sortByOfString,
            numberOfJson (getProp j ''gridSize''),
            numberOfJson (getProp j ''gapSize''),
            boolOfJson (getProp j ''foldersFirst'')) of
        (Some vm, Some sb, Some gs, Some gp, Some ff) \<Rightarrow>
          (case (stringsOfJson (getProp j ''columnStack''),
                 numberOfJson (getProp j ''scrollTop''),
                 numberOfJson (getProp j ''scrollLeft''),
                 transformOfJson (getProp j ''sizeViewTransform'')) of
             (Some cs, Some st, Some sl, Some tr) \<Rightarrow>
               Some \<lparr> viewMode = vm, sortBy = sb, gridSize = gs, gapSize = gp,
                      foldersFirst = ff, columnStack = cs, scrollTop = st, scrollLeft = sl,
                      sizeViewTransform = tr \<rparr>
           | _ \<Rightarrow> None)
      | _ \<Rightarrow> None)"

definition tabOfJson :: "json \<Rightarrow> Tab option" where
  "tabOfJson j =
     (case (stringOfJson (getProp j ''id''), titleOfJson (getProp j ''title''),
            boolOfJson (getProp j ''isPinned''), numberOfJson (getProp j ''lastActive''),
            stringOfJson (getProp j ''savedPath'')) of
        (Some i, Some t, Some p, Some l, Some sp) \<Rightarrow>
          (case getProp j ''icon'' of
             Some JNull \<Rightarrow>
               Some \<lparr> tab_id = i, title = t, icon = None, isPinned = p, lastActive = l,
                      savedPath = sp \<rparr>
           | Some (JStr ic) \<Rightarrow>
               map_option (\<lambda>ic'. \<lparr> tab_id = i, title = t, icon = Some ic', isPinned = p,
                                     lastActive = l, savedPath = sp \<rparr>)
                 (narrow ic)
           | _ \<Rightarrow> None)
      | _ \<Rightarrow> None)"

text \<open>The record that a parsed object is: its properties in the order of their
  creation, one per name (the last member of a name gives the value), every name an
  8-bit string.\<close>

definition recordOfJson ::
  "(json \<Rightarrow> 'v option) \<Rightarrow> (units \<times> json) list \<Rightarrow> (string \<times> 'v) list option" where
  "recordOfJson valueOfJson ms =
     those (map (\<lambda>(k, e). case (narrow k, valueOfJson e) of
                             (Some k', Some e') \<Rightarrow> Some (k', e')
                           | _ \<Rightarrow> None)
              (mapOfEntries ms))"

definition explorerStatesOfJson ::
  "json option \<Rightarrow> (string \<times> TabExplorerState) list option option" where
  "explorerStatesOfJson v =
     (case v of
        Some JNull \<Rightarrow> Some None
      | Some (JObj ms) \<Rightarrow> map_option Some (recordOfJson explorerStateOfJson ms)
      | _ \<Rightarrow> None)"

definition defaultNewTabPathOfJson :: "json option \<Rightarrow> string option option" where
  "defaultNewTabPathOfJson v =
     (case v of
        None \<Rightarrow> Some None
      | Some JNull \<Rightarrow> Some None
      | Some (JStr s) \<Rightarrow> map_option Some (narrow s)
      | _ \<Rightarrow> None)"

definition asPersistedState :: "json \<Rightarrow> PersistedState option" where
  "asPersistedState j =
     (case (case getProp j ''tabs'' of Some (JArr ts) \<Rightarrow> those (map tabOfJson ts) | _ \<Rightarrow> None,
            stringOfJson (getProp j ''activeTabId''),
            explorerStatesOfJson (getProp j ''explorerStates''),
            defaultNewTabPathOfJson (getProp j ''defaultNewTabPath'')) of
        (Some ts, Some a, Some es, Some d) \<Rightarrow>
          Some \<lparr> ps_tabs = ts, ps_activeTabId = a, ps_explorerStates = es,
                 ps_defaultNewTabPath = d \<rparr>
      | _ \<Rightarrow> None)"

section \<open>Mount: the state initialisers and the mount effect\<close>

text \<open>
  The initialisers of the provider's state call \<open>loadPersistedState()\<close> and read what
  it returns through the cast \<open>as PersistedState\<close>, which checks nothing: they read the
  parsed value as it is. \<open>loadPersistedState\<close> has tested that \<open>tabs\<close> is an array
  and \<open>activeTabId\<close> a string, and nothing about the elements of the array.
  \<open>initialTabId\<close> stands for \<open>crypto.randomUUID()\<close> and \<open>now\<close> for \<open>Date.now()\<close>.
\<close>

definition freshTab :: "string \<Rightarrow> real \<Rightarrow> Tab" where
  "freshTab initialTabId now =
     \<lparr> tab_id = initialTabId, title = Text ''Overview'', icon = None, isPinned = False,
       lastActive = now, savedPath = ''/'' \<rparr>"

text \<open>The members \<open>persisted.tabs\<close> and \<open>persisted.activeTabId\<close> of a value that
  \<open>loadPersistedState\<close> returned: an array and a string (lemma
  \<open>loadPersistedState_accepts\<close> below).\<close>

definition persistedTabs :: "json \<Rightarrow> json list" where
  "persistedTabs persisted =
     (case getProp persisted ''tabs'' of Some (JArr ts) \<Rightarrow> ts | _ \<Rightarrow> [])"

definition persistedActiveTabId :: "json \<Rightarrow> units" where
  "persistedActiveTabId persisted =
     (case getProp persisted ''activeTabId'' of Some (JStr a) \<Rightarrow> a | _ \<Rightarrow> [])"

text \<open>The first initialiser gives the tab list: the persisted array as it is when it
  has an element, or the one synthesized tab.\<close>

datatype initialTabList = AdoptedTabs "json list" | SynthesizedTab Tab

definition tabsInitialiser :: "json option \<Rightarrow> string \<Rightarrow> real \<Rightarrow> initialTabList" where
  "tabsInitialiser persisted initialTabId now =
     (case persisted of
        Some p \<Rightarrow>
          if length (persistedTabs p) > 0 then AdoptedTabs (persistedTabs p)
          else SynthesizedTab (freshTab initialTabId now)
      | None \<Rightarrow> SynthesizedTab (freshTab initialTabId now))"

definition tabCount :: "initialTabList \<Rightarrow> nat" where
  "tabCount ts = (case ts of AdoptedTabs js \<Rightarrow> length js | SynthesizedTab _ \<Rightarrow> 1)"

text \<open>\<open>t.id\<close> for an element of a parsed array: a \<open>TypeError\<close> when the element is
  \<open>null\<close>, the member or \<open>undefined\<close> otherwise.\<close>

definition idOf :: "json \<Rightarrow> jsError + json option" where
  "idOf t = (if t = JNull then Inl TypeError else Inr (getProp t ''id''))"

text \<open>\<open>tabs[0].id\<close> on the tab list of the first initialiser.\<close>

definition firstId :: "initialTabList \<Rightarrow> jsError + json option" where
  "firstId ts =
     (case ts of
        SynthesizedTab t \<Rightarrow> Inr (Some (str (tab_id t)))
      | AdoptedTabs js \<Rightarrow> (case js of t # _ \<Rightarrow> idOf t | [] \<Rightarrow> Inl TypeError))"

text \<open>\<open>ts.some((t) => t.id === a)\<close> for a string \<open>a\<close>: the elements are visited in
  order up to the first one whose id is \<open>a\<close>, and reading the id of a \<open>null\<close> element
  on the way throws.\<close>

fun someIdIs :: "units \<Rightarrow> json list \<Rightarrow> jsError + bool" where
  "someIdIs a [] = Inr False"
| "someIdIs a (t # ts) =
     (case idOf t of
        Inl e \<Rightarrow> Inl e
      | Inr v \<Rightarrow> if v = Some (JStr a) then Inr True else someIdIs a ts)"

text \<open>The second initialiser gives the active tab id: the persisted one when it is
  not empty and some persisted tab has it, and \<open>tabs[0].id\<close> otherwise.\<close>

definition activeTabIdInitialiser :: "json option \<Rightarrow> initialTabList \<Rightarrow> jsError + json option" where
  "activeTabIdInitialiser persisted ts =
     (case persisted of
        Some p \<Rightarrow>
          if persistedActiveTabId p \<noteq> [] then
            (case someIdIs (persistedActiveTabId p) (persistedTabs p) of
               Inl e \<Rightarrow> Inl e
             | Inr tabExists \<Rightarrow>
                 if tabExists then Inr (Some (JStr (persistedActiveTabId p))) else firstId ts)
          else firstId ts
      | None \<Rightarrow> firstId ts)"

subsection \<open>The initialisers on a snapshot of declared type\<close>

text \<open>When the parsed value has the type the cast declares (\<open>asPersistedState\<close>), the
  initialisers and the mount effect compute typed values, and the provider starts in a
  state of the type \<open>TabManager\<close>.\<close>

definition initialTabs :: "PersistedState option \<Rightarrow> string \<Rightarrow> real \<Rightarrow> Tab list" where
  "initialTabs persisted initialTabId now =
     (let fresh = [freshTab initialTabId now]
      in case persisted of
           Some p \<Rightarrow> if length (ps_tabs p) > 0 then ps_tabs p else fresh
         | None \<Rightarrow> fresh)"

definition initialActiveTabId :: "PersistedState option \<Rightarrow> Tab list \<Rightarrow> jsError + string" where
  "initialActiveTabId persisted ts =
     (case persisted of
        Some p \<Rightarrow>
          if ps_activeTabId p \<noteq> [] \<and> list_ex (\<lambda>t. tab_id t = ps_activeTabId p) (ps_tabs p)
          then Inr (ps_activeTabId p)
          else firstTabId ts
      | None \<Rightarrow> firstTabId ts)"

definition initialStore ::
  "PersistedState option \<Rightarrow> Tab list \<Rightarrow> ExplorerStateStore \<Rightarrow> jsError + ExplorerStateStore" where
  "initialStore persisted ts store =
     (case (case persisted of Some p \<Rightarrow> ps_explorerStates p | None \<Rightarrow> None) of
        Some record \<Rightarrow> Inr (snd (loadFromRecord record store))
      | None \<Rightarrow>
          (case firstTabId ts of
             Inl e \<Rightarrow> Inl e
           | Inr first \<Rightarrow> Inr (snd (setState first DEFAULT_EXPLORER_STATE store))))"

definition initialDefaultNewTabPath :: "PersistedState option \<Rightarrow> string" where
  "initialDefaultNewTabPath persisted =
     (case persisted of
        Some p \<Rightarrow> (case ps_defaultNewTabPath p of Some d \<Rightarrow> d | None \<Rightarrow> ''/'')
      | None \<Rightarrow> ''/'')"

definition mountAtDeclaredTypes ::
  "PersistedState option \<Rightarrow> string \<Rightarrow> real \<Rightarrow> ExplorerStateStore \<Rightarrow> jsError + TabManager" where
  "mountAtDeclaredTypes persisted initialTabId now store =
     (let ts = initialTabs persisted initialTabId now
      in case initialActiveTabId persisted ts of
           Inl e \<Rightarrow> Inl e
         | Inr active \<Rightarrow>
             (case firstTabId ts of
                Inl e \<Rightarrow> Inl e
              | Inr first \<Rightarrow>
                  (case initialStore persisted ts store of
                     Inl e \<Rightarrow> Inl e
                   | Inr store' \<Rightarrow>
                       Inr \<lparr> tabs = ts, activeTabId = active,
                             selectionStates = [(first, [])],
                             defaultNewTabPath = initialDefaultNewTabPath persisted,
                             explorerStateStore = store' \<rparr>)))"

subsection \<open>Mounting the provider\<close>

text \<open>
  Mounting the provider, given what \<open>localStorage.getItem\<close> does. The first render runs
  the initialisers in order. The one of \<open>activeTabId\<close> is the first to read a member of
  an element of the tab list, and a \<open>TypeError\<close> it throws ends the render: the provider
  does not mount. When it returns, \<open>tabs[0]\<close> is not \<open>null\<close>, and neither the
  remaining initialisers nor the mount effect throw. The provider is then mounted: in
  the typed state above when the snapshot has its declared type (or there is none),
  and otherwise in a state outside the type \<open>TabManager\<close>, of which only the tab list
  and the active tab id are given, as they are.
\<close>

datatype mountResult =
    Mounted TabManager
  | Thrown jsError
  | MountedUntyped initialTabList "json option"

definition declaredType :: "json option \<Rightarrow> PersistedState option option" where
  "declaredType persisted =
     (case persisted of None \<Rightarrow> Some None | Some p \<Rightarrow> map_option Some (asPersistedState p))"

definition mount ::
  "jsError + string option \<Rightarrow> string \<Rightarrow> real \<Rightarrow> ExplorerStateStore \<Rightarrow> mountResult" where
  "mount getItem initialTabId now store =
     (let persisted = loadPersistedState getItem;
          ts = tabsInitialiser persisted initialTabId now
      in case activeTabIdInitialiser persisted ts of
           Inl e \<Rightarrow> Thrown e
         | Inr active \<Rightarrow>
             (case declaredType persisted of
                None \<Rightarrow> MountedUntyped ts active
              | Some typed \<Rightarrow>
                  (case mountAtDeclaredTypes typed initialTabId now store of
                     Inl e \<Rightarrow> Thrown e
                   | Inr s \<Rightarrow> Mounted s)))"

section \<open>Operations\<close>

definition setDefaultNewTabPath :: "string \<Rightarrow> TabManager \<Rightarrow> TabManager" where
  "setDefaultNewTabPath path s = s\<lparr> defaultNewTabPath := path \<rparr>"

text \<open>The title \<open>createTab\<close> derives from the path of the new tab: the
  destructuring \<open>[pathname, search = ''] = tabPath.split('?')\<close> takes the first two
  pieces, and the call is
  \<open>deriveTitleFromPath(pathname, search ? `?${search}` : '')\<close>.\<close>

definition titleOfTabPath :: "string \<Rightarrow> TitleValue" where
  "titleOfTabPath tabPath =
     (let pieces = splitOn CHR ''?'' tabPath;
          pathname = (case pieces of a # _ \<Rightarrow> a | [] \<Rightarrow> []);
          search = (case pieces of _ # b # _ \<Rightarrow> b | _ \<Rightarrow> [])
      in deriveTitleFromPath pathname (if search \<noteq> [] then ''?'' @ search else []))"

text \<open>\<open>createTab(title?, path?)\<close>; \<open>newId\<close> stands for \<open>crypto.randomUUID()\<close>.
  In \<open>title || deriveTitleFromPath(...)\<close> an absent and an empty title are both
  falsy.\<close>

definition createTab ::
  "string option \<Rightarrow> string option \<Rightarrow> string \<Rightarrow> real \<Rightarrow> TabManager \<Rightarrow> TabManager" where
  "createTab titleArg pathArg newId now s =
     (let tabPath = (case pathArg of Some p \<Rightarrow> p | None \<Rightarrow> defaultNewTabPath s);
          derived = titleOfTabPath tabPath;
          derivedTitle = (case titleArg of
                            Some t \<Rightarrow> if t \<noteq> [] then Text t else derived
                          | None \<Rightarrow> derived);
          newTab = \<lparr> tab_id = newId, title = derivedTitle, icon = None, isPinned = False,
                     lastActive = now, savedPath = tabPath \<rparr>
      in s\<lparr> explorerStateStore :=
               snd (setState (tab_id newTab) DEFAULT_EXPLORER_STATE (explorerStateStore s)),
             selectionStates := AList.update (tab_id newTab) [] (selectionStates s),
             tabs := tabs s @ [newTab],
             activeTabId := tab_id newTab \<rparr>)"

text \<open>The updater that \<open>closeTab\<close> gives to \<open>setTabs\<close>: the new tab list, and the
  argument of the \<open>setActiveTabId\<close> call it makes, if it makes one.\<close>

definition closeTabUpdater :: "string \<Rightarrow> string \<Rightarrow> Tab list \<Rightarrow> Tab list \<times> string option" where
  "closeTabUpdater tabId active prev =
     (let filtered = filter (\<lambda>t. tab_id t \<noteq> tabId) prev
      in if length filtered = 0 then (prev, None)
         else if tabId = active then
           (let currentIndex = findIndex (\<lambda>t. tab_id t = tabId) prev;
                newIndex = max 0 (currentIndex - 1);
                newActiveTab = (case at_index filtered newIndex of
                                  Some t \<Rightarrow> Some t
                                | None \<Rightarrow> at_index filtered 0)
            in (filtered, map_option tab_id newActiveTab))
         else (filtered, None))"

definition closeTab :: "string \<Rightarrow> TabManager \<Rightarrow> TabManager" where
  "closeTab tabId s =
     (let (ts, newActive) = closeTabUpdater tabId (activeTabId s) (tabs s)
      in s\<lparr> tabs := ts,
             activeTabId := (case newActive of Some a \<Rightarrow> a | None \<Rightarrow> activeTabId s),
             explorerStateStore := snd (deleteState tabId (explorerStateStore s)),
             selectionStates := AList.delete tabId (selectionStates s) \<rparr>)"

definition switchTab :: "string \<Rightarrow> real \<Rightarrow> TabManager \<Rightarrow> TabManager" where
  "switchTab newTabId now s =
     (if newTabId = activeTabId s then s
      else s\<lparr> tabs := map (\<lambda>tab. if tab_id tab = newTabId then tab\<lparr> lastActive := now \<rparr>
                                 else tab) (tabs s),
               activeTabId := newTabId \<rparr>)"

definition updateTabTitle :: "string \<Rightarrow> string \<Rightarrow> TabManager \<Rightarrow> TabManager" where
  "updateTabTitle tabId newTitle s =
     s\<lparr> tabs := map (\<lambda>tab. if tab_id tab = tabId then tab\<lparr> title := Text newTitle \<rparr> else tab)
                   (tabs s) \<rparr>"

definition updateTabPath :: "string \<Rightarrow> string \<Rightarrow> TabManager \<Rightarrow> TabManager" where
  "updateTabPath tabId path s =
     s\<lparr> tabs := map (\<lambda>tab. if tab_id tab = tabId then tab\<lparr> savedPath := path \<rparr> else tab)
                   (tabs s) \<rparr>"

text \<open>The updater of \<open>reorderTabs\<close>. \<open>splice(oldIndex, 1)\<close> takes the element at
  \<open>oldIndex\<close> out, \<open>splice(newIndex, 0, movedTab)\<close> puts it in at \<open>newIndex\<close>
  (a start beyond the end is the end). Both indices come from \<open>findIndex\<close> and are not
  \<open>-1\<close> here, so \<open>movedTab\<close> is an element.\<close>

definition reorderUpdater :: "string \<Rightarrow> string \<Rightarrow> Tab list \<Rightarrow> Tab list" where
  "reorderUpdater activeId overId prev =
     (let oldIndex = findIndex (\<lambda>tab. tab_id tab = activeId) prev;
          newIndex = findIndex (\<lambda>tab. tab_id tab = overId) prev
      in if oldIndex = - 1 \<or> newIndex = - 1 \<or> oldIndex = newIndex then prev
         else (case at_index prev oldIndex of
                 None \<Rightarrow> prev
               | Some movedTab \<Rightarrow>
                   (let newTabs = take (nat oldIndex) prev @ drop (Suc (nat oldIndex)) prev
                    in take (nat newIndex) newTabs @ [movedTab] @ drop (nat newIndex) newTabs)))"

definition reorderTabs :: "string \<Rightarrow> string \<Rightarrow> TabManager \<Rightarrow> TabManager" where
  "reorderTabs activeId overId s = s\<lparr> tabs := reorderUpdater activeId overId (tabs s) \<rparr>"

text \<open>\<open>tabs[i].id\<close> throws a \<open>TypeError\<close> when \<open>tabs[i]\<close> is \<open>undefined\<close>; on an
  empty list the index is \<open>NaN\<close>.\<close>

definition nextTab :: "real \<Rightarrow> TabManager \<Rightarrow> jsError + TabManager" where
  "nextTab now s =
     (let currentIndex = findIndex (\<lambda>t. tab_id t = activeTabId s) (tabs s);
          n = int (length (tabs s))
      in if n = 0 then Inl TypeError
         else (case at_index (tabs s) (jsRem (currentIndex + 1) n) of
                 None \<Rightarrow> Inl TypeError
               | Some t \<Rightarrow> Inr (switchTab (tab_id t) now s)))"

definition previousTab :: "real \<Rightarrow> TabManager \<Rightarrow> jsError + TabManager" where
  "previousTab now s =
     (let currentIndex = findIndex (\<lambda>t. tab_id t = activeTabId s) (tabs s);
          n = int (length (tabs s))
      in if n = 0 then Inl TypeError
         else (case at_index (tabs s) (jsRem (currentIndex - 1 + n) n) of
                 None \<Rightarrow> Inl TypeError
               | Some t \<Rightarrow> Inr (switchTab (tab_id t) now s)))"

definition selectTabAtIndex :: "int \<Rightarrow> real \<Rightarrow> TabManager \<Rightarrow> TabManager" where
  "selectTabAtIndex index now s =
     (if index \<ge> 0 \<and> index < int (length (tabs s)) then
        (case at_index (tabs s) index of
           Some t \<Rightarrow> switchTab (tab_id t) now s
         | None \<Rightarrow> s)
      else s)"

definition getExplorerState :: "TabManager \<Rightarrow> string \<Rightarrow> TabExplorerState" where
  "getExplorerState s tabId = getState (explorerStateStore s) tabId"

definition updateExplorerState ::
  "string \<Rightarrow> PartialTabExplorerState \<Rightarrow> TabManager \<Rightarrow> TabManager" where
  "updateExplorerState tabId updates s =
     s\<lparr> explorerStateStore := snd (updateState tabId updates (explorerStateStore s)) \<rparr>"

definition getSelectionIds :: "TabManager \<Rightarrow> string \<Rightarrow> string list" where
  "getSelectionIds s tabId =
     (case map_of (selectionStates s) tabId of Some ids \<Rightarrow> ids | None \<Rightarrow> [])"

definition updateSelectionIds :: "string \<Rightarrow> string list \<Rightarrow> TabManager \<Rightarrow> TabManager" where
  "updateSelectionIds tabId fileIds s =
     s\<lparr> selectionStates := AList.update tabId fileIds (selectionStates s) \<rparr>"

subsection \<open>Sequences of operations\<close>

text \<open>A call of an operation of the context value, with the fresh id and the clock
  reading it draws where it draws one.\<close>

datatype tabOp =
    CreateTab "string option" "string option" string real
  | CloseTab string
  | SwitchTab string real
  | UpdateTabTitle string string
  | UpdateTabPath string string
  | ReorderTabs string string
  | NextTab real
  | PreviousTab real
  | SelectTabAtIndex int real
  | SetDefaultNewTabPath string
  | UpdateExplorerState string PartialTabExplorerState
  | UpdateSelectionIds string "string list"

fun step :: "tabOp \<Rightarrow> TabManager \<Rightarrow> jsError + TabManager" where
  "step (CreateTab t p newId now) s = Inr (createTab t p newId now s)"
| "step (CloseTab tabId) s = Inr (closeTab tabId s)"
| "step (SwitchTab tabId now) s = Inr (switchTab tabId now s)"
| "step (UpdateTabTitle tabId t) s = Inr (updateTabTitle tabId t s)"
| "step (UpdateTabPath tabId p) s = Inr (updateTabPath tabId p s)"
| "step (ReorderTabs a b) s = Inr (reorderTabs a b s)"
| "step (NextTab now) s = nextTab now s"
| "step (PreviousTab now) s = previousTab now s"
| "step (SelectTabAtIndex i now) s = Inr (selectTabAtIndex i now s)"
| "step (SetDefaultNewTabPath p) s = Inr (setDefaultNewTabPath p s)"
| "step (UpdateExplorerState tabId u) s = Inr (updateExplorerState tabId u s)"
| "step (UpdateSelectionIds tabId ids) s = Inr (updateSelectionIds tabId ids s)"

text \<open>A thrown error ends the sequence.\<close>

fun run :: "tabOp list \<Rightarrow> TabManager \<Rightarrow> jsError + TabManager" where
  "run [] s = Inr s"
| "run (op # ops) s = (case step op s of Inl e \<Rightarrow> Inl e | Inr s' \<Rightarrow> run ops s')"

section \<open>Concrete inputs\<close>

text \<open>Small stores and managers on which the theorems below are run.\<close>

definition listenerX :: ExplorerStateListener where
  "listenerX = Listener 0 ''tab-x''"

definition listenerY :: ExplorerStateListener where
  "listenerY = Listener 1 ''tab-y''"

definition twoListeners :: "storeOp list" where
  "twoListeners = [Subscribe listenerX, Subscribe listenerY, Subscribe listenerX]"

definition listView :: TabExplorerState where
  "listView = DEFAULT_EXPLORER_STATE\<lparr> viewMode := List, gridSize := 80 \<rparr>"

definition listStore :: ExplorerStateStore where
  "listStore = \<lparr> states = [(''tab-x'', listView)], listeners = [] \<rparr>"

definition tabA :: Tab where
  "tabA = \<lparr> tab_id = ''a'', title = Text ''Overview'', icon = None, isPinned = False,
            lastActive = 0, savedPath = ''/'' \<rparr>"

definition tabB :: Tab where
  "tabB = \<lparr> tab_id = ''b'', title = Text ''Favorites'', icon = None, isPinned = False,
            lastActive = 1, savedPath = ''/favorites'' \<rparr>"

definition tabC :: Tab where
  "tabC = \<lparr> tab_id = ''c'', title = Text ''Search'', icon = None, isPinned = False,
            lastActive = 2, savedPath = ''/search'' \<rparr>"

text \<open>A manager with the single tab \<open>a\<close>, which has a stored explorer state and a
  selection.\<close>

definition oneTab :: TabManager where
  "oneTab =
     \<lparr> tabs = [tabA], activeTabId = ''a'',
       selectionStates = [(''a'', [''file-1''])],
       defaultNewTabPath = ''/'',
       explorerStateStore = \<lparr> states = [(''a'', listView)], listeners = [] \<rparr> \<rparr>"

text \<open>A manager with the tabs \<open>a\<close>, \<open>b\<close>, \<open>c\<close>, the tab \<open>b\<close> active.\<close>

definition threeTabs :: TabManager where
  "threeTabs =
     \<lparr> tabs = [tabA, tabB, tabC], activeTabId = ''b'',
       selectionStates = [(''a'', []), (''b'', []), (''c'', [])],
       defaultNewTabPath = ''/'',
       explorerStateStore =
         \<lparr> states = [(''a'', DEFAULT_EXPLORER_STATE), (''b'', DEFAULT_EXPLORER_STATE),
                      (''c'', DEFAULT_EXPLORER_STATE)],
           listeners = [] \<rparr> \<rparr>"

text \<open>What \<open>localStorage\<close> holds in the examples: a snapshot with one tab whose
  \<open>explorerStates\<close> member is \<open>null\<close>, and the same snapshot with an explorer state
  table.\<close>

definition storedNullStates :: string where
  \<open>storedNullStates =
     ''{"tabs":[{"id":"a","title":"Overview","icon":null,"isPinned":false,'' @
     ''"lastActive":0,"savedPath":"/"}],"activeTabId":"a","explorerStates":null,'' @
     ''"defaultNewTabPath":"/"}''\<close>

definition storedTabsNotArray :: string where
  \<open>storedTabsNotArray =
     ''{"tabs":{"0":"a"},"activeTabId":"a","explorerStates":{},"defaultNewTabPath":"/"}''\<close>

text \<open>The value \<open>JSON.parse\<close> returns for \<open>storedNullStates\<close>, and the typed record
  it is.\<close>

definition nullStatesSnapshot :: json where
  "nullStatesSnapshot =
     obj [(''tabs'',
           JArr [obj [(''id'', str ''a''), (''title'', str ''Overview''), (''icon'', JNull),
                      (''isPinned'', JBool False), (''lastActive'', JNum 0),
                      (''savedPath'', str ''/'')]]),
          (''activeTabId'', str ''a''),
          (''explorerStates'', JNull),
          (''defaultNewTabPath'', str ''/'')]"

definition nullStatesPersisted :: PersistedState where
  "nullStatesPersisted =
     \<lparr> ps_tabs = [tabA], ps_activeTabId = ''a'', ps_explorerStates = None,
       ps_defaultNewTabPath = Some ''/'' \<rparr>"

text \<open>The object \<open>{Physical: {path: '/Users/me/Documents'}}\<close> of the documented
  example.\<close>

definition documentsSdPath :: json where
  "documentsSdPath = obj [(''Physical'', obj [(''path'', str ''/Users/me/Documents'')])]"

text \<open>A snapshot whose tab array holds \<open>null\<close>: what \<open>localStorage\<close> holds, and the
  value \<open>JSON.parse\<close> returns for it.\<close>

definition storedNullTab :: string where
  \<open>storedNullTab = ''{"tabs":[null],"activeTabId":"a","explorerStates":{}}''\<close>

definition nullTabSnapshot :: json where
  "nullTabSnapshot =
     obj [(''tabs'', JArr [JNull]), (''activeTabId'', str ''a''), (''explorerStates'', obj [])]"

text \<open>The manager with the tabs \<open>a\<close>, \<open>b\<close>, \<open>c\<close> and the first tab active.\<close>

definition threeTabsFirst :: TabManager where
  "threeTabsFirst = threeTabs\<lparr> activeTabId := ''a'' \<rparr>"

section \<open>Properties of the explorer state store\<close>

lemma storeStep_distinct:
  "distinct (listeners store) \<Longrightarrow> distinct (listeners (snd (storeStep op store)))"
  by (cases op)
     (simp_all add: setState_def updateState_def deleteState_def loadFromRecord_def
        subscribe_def unsubscribe_def Let_def distinct_removeAll)

lemma storeRun_distinct:
  "distinct (listeners store) \<Longrightarrow> distinct (listeners (storeRun ops store))"
  by (induction ops arbitrary: store) (simp_all add: storeStep_distinct)

lemma reachable_distinct: "distinct (listeners (storeRun ops newExplorerStateStore))"
  by (rule storeRun_distinct) (simp add: newExplorerStateStore_def)

lemma count_calls_distinct:
  "distinct ls \<Longrightarrow> l \<in> set ls \<Longrightarrow> length (filter (\<lambda>c. fst c = l) (map (\<lambda>l. (l, t)) ls)) = 1"
proof (induction ls)
  case Nil
  then show ?case by simp
next
  case (Cons a ls)
  show ?case
  proof (cases "a = l")
    case True
    with Cons.prems have "l \<notin> set ls" by simp
    then have "filter (\<lambda>c. fst c = l) (map (\<lambda>l. (l, t)) ls) = []"
      by (induction ls) auto
    with True show ?thesis by simp
  next
    case False
    with Cons show ?thesis by simp
  qed
qed

lemma callbackRuns_notify:
  assumes "distinct ls" and "l \<in> set ls"
  shows "callbackRuns l (map (\<lambda>l. (l, t)) ls) = (if t = '''' \<or> t = boundTab l then 1 else 0)"
proof -
  have eq: "filter (\<lambda>(l', changed). l' = l \<and> invokesCallback l' changed) (map (\<lambda>l. (l, t)) ls)
      = (if invokesCallback l t then filter (\<lambda>c. fst c = l) (map (\<lambda>l. (l, t)) ls) else [])"
    by (induction ls) auto
  show ?thesis
    unfolding callbackRuns_def eq
    using count_calls_distinct [OF assms, of t]
    by (simp add: invokesCallback_def)
qed

text \<open>
  Claim C5. After \<open>updateExplorerState(id, {sortBy: 'size'})\<close> (which is
  \<open>explorerStateStore.updateState\<close>), \<open>getExplorerState(id)\<close> (which is
  \<open>explorerStateStore.getState\<close>) returns the state read before the update (the stored
  one, or the default when the tab had no entry) with \<open>sortBy\<close> set to \<open>'size'\<close>:
  \<open>sortBy\<close> is \<open>'size'\<close> and each of the eight other fields is what it was.
\<close>

theorem updateState_sortBy_merge:
  fixes store :: ExplorerStateStore and tabId :: string
  defines "before \<equiv> getState store tabId"
  defines "after \<equiv> getState (snd (updateState tabId sortBySizeUpdate store)) tabId"
  shows "sortBy after = Size
    \<and> viewMode after = viewMode before
    \<and> gridSize after = gridSize before
    \<and> gapSize after = gapSize before
    \<and> foldersFirst after = foldersFirst before
    \<and> columnStack after = columnStack before
    \<and> scrollTop after = scrollTop before
    \<and> scrollLeft after = scrollLeft before
    \<and> sizeViewTransform after = sizeViewTransform before
    \<and> after = before\<lparr> sortBy := Size \<rparr>"
  unfolding before_def after_def
  by (simp add: getState_def updateState_def Let_def spread_def sortBySizeUpdate_def
      update_conv' split: option.split)

theorem updateState_sortBy_merge_witness:
  "getState listStore ''tab-x'' = listView
   \<and> getState (snd (updateState ''tab-x'' sortBySizeUpdate listStore)) ''tab-x''
       = listView\<lparr> sortBy := Size \<rparr>
   \<and> getState (snd (updateState ''tab-y'' sortBySizeUpdate listStore)) ''tab-y''
       = DEFAULT_EXPLORER_STATE\<lparr> sortBy := Size \<rparr>"
proof -
  have x: "getState listStore ''tab-x'' = listView"
    by (simp add: getState_def listStore_def)
  have y: "getState listStore ''tab-y'' = DEFAULT_EXPLORER_STATE"
    by (simp add: getState_def listStore_def)
  show ?thesis
    using updateState_sortBy_merge [where store = listStore and tabId = "''tab-x''"]
      updateState_sortBy_merge [where store = listStore and tabId = "''tab-y''"] x y
    by simp
qed

text \<open>
  Claim C6. On a store reached by any calls of its methods, \<open>setState\<close>,
  \<open>updateState\<close> and \<open>deleteState\<close> for a tab id call every registered listener exactly
  once, and nothing else, each time with that tab id as it is. So the listener that
  \<open>useTabExplorerState\<close> registered for tab X runs React's callback once when the id
  is X's or the empty string (the sentinel of \<open>loadFromRecord\<close>), and not at all when it
  is the id of another tab.
\<close>

theorem notification_reaches_each_listener_once:
  fixes ops :: "storeOp list" and t :: string
  defines "store \<equiv> storeRun ops newExplorerStateStore"
  assumes op: "op = SetState t st \<or> op = UpdateState t u \<or> op = DeleteState t"
  defines "calls \<equiv> fst (storeStep op store)"
  shows "calls = map (\<lambda>l. (l, t)) (listeners store)
    \<and> listeners (snd (storeStep op store)) = listeners store
    \<and> (\<forall>l. length (filter (\<lambda>c. fst c = l) calls) = (if l \<in> set (listeners store) then 1 else 0))
    \<and> (\<forall>c \<in> set calls. snd c = t)
    \<and> (\<forall>l \<in> set (listeners store).
          callbackRuns l calls = (if t = '''' \<or> t = boundTab l then 1 else 0))
    \<and> (\<forall>l \<in> set (listeners store). t \<noteq> '''' \<and> t \<noteq> boundTab l \<longrightarrow> callbackRuns l calls = 0)"
proof -
  have d: "distinct (listeners store)"
    unfolding store_def by (rule reachable_distinct)
  have calls: "calls = map (\<lambda>l. (l, t)) (listeners store)"
    and same: "listeners (snd (storeStep op store)) = listeners store"
    using op unfolding calls_def
    by (auto simp: setState_def updateState_def deleteState_def notifyListeners_def Let_def)
  have once: "length (filter (\<lambda>c. fst c = l) calls) = (if l \<in> set (listeners store) then 1 else 0)"
    for l
  proof (cases "l \<in> set (listeners store)")
    case True
    then show ?thesis using count_calls_distinct [OF d True, of t] calls by simp
  next
    case False
    then have "filter (\<lambda>c. fst c = l) (map (\<lambda>l. (l, t)) (listeners store)) = []"
      by (auto simp: filter_empty_conv)
    with False calls show ?thesis by simp
  qed
  have runs: "callbackRuns l calls = (if t = '''' \<or> t = boundTab l then 1 else 0)"
    if "l \<in> set (listeners store)" for l
    using callbackRuns_notify [OF d that, of t] calls by simp
  show ?thesis
    using calls same once runs by auto
qed

theorem notification_reaches_each_listener_once_witness:
  "listeners (storeRun twoListeners newExplorerStateStore) = [listenerX, listenerY]
   \<and> fst (storeStep (UpdateState ''tab-y'' sortBySizeUpdate)
         (storeRun twoListeners newExplorerStateStore))
       = [(listenerX, ''tab-y''), (listenerY, ''tab-y'')]
   \<and> callbackRuns listenerX
        (fst (storeStep (UpdateState ''tab-y'' sortBySizeUpdate)
           (storeRun twoListeners newExplorerStateStore))) = 0
   \<and> callbackRuns listenerY
        (fst (storeStep (UpdateState ''tab-y'' sortBySizeUpdate)
           (storeRun twoListeners newExplorerStateStore))) = 1"
proof -
  have ls: "listeners (storeRun twoListeners newExplorerStateStore) = [listenerX, listenerY]"
    by (simp add: twoListeners_def newExplorerStateStore_def subscribe_def listenerX_def
        listenerY_def)
  have op: "UpdateState ''tab-y'' sortBySizeUpdate = SetState ''tab-y'' DEFAULT_EXPLORER_STATE
      \<or> UpdateState ''tab-y'' sortBySizeUpdate = UpdateState ''tab-y'' sortBySizeUpdate
      \<or> UpdateState ''tab-y'' sortBySizeUpdate = DeleteState ''tab-y''"
    by simp
  let ?calls = "fst (storeStep (UpdateState ''tab-y'' sortBySizeUpdate)
                  (storeRun twoListeners newExplorerStateStore))"
  note delivery = notification_reaches_each_listener_once [OF op, of twoListeners]
  from delivery have "?calls = map (\<lambda>l. (l, ''tab-y'')) [listenerX, listenerY]"
    unfolding ls by (rule conjunct1)
  then have calls: "?calls = [(listenerX, ''tab-y''), (listenerY, ''tab-y'')]"
    by simp
  from delivery have runs: "\<forall>l \<in> set [listenerX, listenerY].
      callbackRuns l ?calls = (if ''tab-y'' = '''' \<or> ''tab-y'' = boundTab l then 1 else 0)"
    unfolding ls by blast
  from runs have x: "callbackRuns listenerX ?calls = 0"
    by (simp add: listenerX_def)
  from runs have y: "callbackRuns listenerY ?calls = 1"
    by (simp add: listenerY_def)
  from ls calls x y show ?thesis
    by blast
qed

section \<open>Properties of the tab manager\<close>

lemma findIndex_range:
  "findIndex p xs = - 1 \<or> (0 \<le> findIndex p xs \<and> findIndex p xs < int (length xs))"
  by (induction xs) (auto simp: Let_def)

lemma findIndex_ge: "- 1 \<le> findIndex p xs"
  using findIndex_range [of p xs] by auto

lemma closeTabUpdater_nonempty:
  "prev \<noteq> [] \<Longrightarrow> fst (closeTabUpdater tabId active prev) \<noteq> []"
  by (auto simp: closeTabUpdater_def Let_def)

lemma closeTab_nonempty: "tabs s \<noteq> [] \<Longrightarrow> tabs (closeTab tabId s) \<noteq> []"
  using closeTabUpdater_nonempty [of "tabs s" tabId "activeTabId s"]
  by (simp add: closeTab_def case_prod_beta)

lemma switchTab_length: "length (tabs (switchTab t now s)) = length (tabs s)"
  by (simp add: switchTab_def)

lemma reorderUpdater_length: "length (reorderUpdater a b prev) = length prev"
proof -
  let ?i = "findIndex (\<lambda>tab. tab_id tab = a) prev"
  let ?j = "findIndex (\<lambda>tab. tab_id tab = b) prev"
  show ?thesis
  proof (cases "?i = - 1 \<or> ?j = - 1 \<or> ?i = ?j")
    case True
    then show ?thesis by (auto simp: reorderUpdater_def Let_def)
  next
    case False
    then have i: "0 \<le> ?i" "?i < int (length prev)" and j: "0 \<le> ?j" "?j < int (length prev)"
      using findIndex_range [of "\<lambda>tab. tab_id tab = a" prev]
        findIndex_range [of "\<lambda>tab. tab_id tab = b" prev] by auto
    then have "at_index prev ?i = Some (prev ! nat ?i)" by (simp add: at_index_def)
    with False i j show ?thesis
      by (simp add: reorderUpdater_def Let_def)
  qed
qed

lemma nextTab_ok:
  assumes "tabs s \<noteq> []"
  shows "\<exists>s'. nextTab now s = Inr s' \<and> length (tabs s') = length (tabs s)"
proof -
  let ?ci = "findIndex (\<lambda>t. tab_id t = activeTabId s) (tabs s)"
  let ?n = "int (length (tabs s))"
  have n: "0 < ?n" using assms by simp
  have "0 \<le> ?ci + 1" using findIndex_ge [of "\<lambda>t. tab_id t = activeTabId s" "tabs s"] by simp
  then have "jsRem (?ci + 1) ?n = (?ci + 1) mod ?n"
    by (cases "?ci + 1 = 0") (simp_all add: jsRem_def)
  moreover have "0 \<le> (?ci + 1) mod ?n" "(?ci + 1) mod ?n < ?n" using n by simp_all
  ultimately obtain t where "at_index (tabs s) (jsRem (?ci + 1) ?n) = Some t"
    by (simp add: at_index_def)
  then show ?thesis using n by (simp add: nextTab_def Let_def switchTab_length)
qed

lemma previousTab_ok:
  assumes "tabs s \<noteq> []"
  shows "\<exists>s'. previousTab now s = Inr s' \<and> length (tabs s') = length (tabs s)"
proof -
  let ?ci = "findIndex (\<lambda>t. tab_id t = activeTabId s) (tabs s)"
  let ?n = "int (length (tabs s))"
  have n: "0 < ?n" using assms by simp
  have ge: "- 1 \<le> ?ci - 1 + ?n"
    using findIndex_ge [of "\<lambda>t. tab_id t = activeTabId s" "tabs s"] n by linarith
  have "0 \<le> jsRem (?ci - 1 + ?n) ?n \<and> jsRem (?ci - 1 + ?n) ?n < ?n"
  proof (cases "0 \<le> ?ci - 1 + ?n")
    case True
    then have "jsRem (?ci - 1 + ?n) ?n = (?ci - 1 + ?n) mod ?n"
      by (cases "?ci - 1 + ?n = 0") (simp_all add: jsRem_def)
    then show ?thesis using n by simp
  next
    case False
    with ge have eq: "?ci - 1 + ?n = - 1" by simp
    moreover have "?n = 1"
      using eq findIndex_ge [of "\<lambda>t. tab_id t = activeTabId s" "tabs s"] n by linarith
    ultimately show ?thesis by (simp add: jsRem_def)
  qed
  then obtain t where "at_index (tabs s) (jsRem (?ci - 1 + ?n) ?n) = Some t"
    by (simp add: at_index_def)
  then show ?thesis using n by (simp add: previousTab_def Let_def switchTab_length)
qed

lemma step_nonempty:
  assumes "tabs s \<noteq> []"
  shows "\<exists>s'. step op s = Inr s' \<and> tabs s' \<noteq> []"
proof (cases op)
  case (CloseTab x)
  then show ?thesis using assms by (simp add: closeTab_nonempty)
next
  case (NextTab now)
  then show ?thesis using nextTab_ok [OF assms, of now] assms by auto
next
  case (PreviousTab now)
  then show ?thesis using previousTab_ok [OF assms, of now] assms by auto
next
  case (ReorderTabs a b)
  have "length (tabs (reorderTabs a b s)) = length (tabs s)"
    by (simp add: reorderTabs_def reorderUpdater_length)
  with ReorderTabs assms show ?thesis by auto
next
  case (SwitchTab t now)
  then show ?thesis using assms switchTab_length [of t now s] by auto
next
  case (SelectTabAtIndex i now)
  then show ?thesis using assms
    by (auto simp: selectTabAtIndex_def switchTab_def split: option.splits)
qed (use assms in \<open>simp_all add: createTab_def Let_def updateTabTitle_def updateTabPath_def
       setDefaultNewTabPath_def updateExplorerState_def updateSelectionIds_def\<close>)

lemma run_nonempty:
  "tabs s \<noteq> [] \<Longrightarrow> \<exists>s'. run ops s = Inr s' \<and> tabs s' \<noteq> []"
proof (induction ops arbitrary: s)
  case Nil
  then show ?case by simp
next
  case (Cons op ops)
  from step_nonempty [OF Cons.prems, of op]
  obtain s1 where s1: "step op s = Inr s1" "tabs s1 \<noteq> []" by blast
  from Cons.IH [OF s1(2)] s1(1) show ?case by simp
qed

lemma initialTabs_nonempty: "initialTabs persisted newId now \<noteq> []"
  by (auto simp: initialTabs_def Let_def split: option.splits)

lemma mountAtDeclaredTypes_ok:
  "\<exists>s. mountAtDeclaredTypes persisted newId now store = Inr s
     \<and> tabs s = initialTabs persisted newId now"
proof -
  obtain t ts where ts: "initialTabs persisted newId now = t # ts"
    using initialTabs_nonempty [of persisted newId now] by (cases "initialTabs persisted newId now") auto
  then show ?thesis
    by (auto simp: mountAtDeclaredTypes_def Let_def initialActiveTabId_def firstTabId_def
        initialStore_def split: option.splits sum.splits)
qed

text \<open>A provider that has mounted has at least one tab, whether its state is of the
  type \<open>TabManager\<close> or not.\<close>

lemma tabsInitialiser_nonempty: "0 < tabCount (tabsInitialiser persisted newId now)"
  by (simp add: tabsInitialiser_def tabCount_def split: option.splits)

lemma mount_nonempty:
  shows "mount getItem newId now store = Mounted s \<Longrightarrow> tabs s \<noteq> []"
    and "mount getItem newId now store = MountedUntyped ts active \<Longrightarrow> 0 < tabCount ts"
proof -
  assume "mount getItem newId now store = Mounted s"
  then obtain typed where "mountAtDeclaredTypes typed newId now store = Inr s"
    by (auto simp: mount_def Let_def split: sum.splits option.splits)
  with mountAtDeclaredTypes_ok [of typed newId now store] show "tabs s \<noteq> []"
    by (auto simp: initialTabs_nonempty)
next
  assume "mount getItem newId now store = MountedUntyped ts active"
  then have "ts = tabsInitialiser (loadPersistedState getItem) newId now"
    by (auto simp: mount_def Let_def split: sum.splits option.splits)
  then show "0 < tabCount ts"
    by (simp add: tabsInitialiser_nonempty)
qed

text \<open>From a mounted provider every sequence of operations (\<open>createTab\<close>, \<open>closeTab\<close>,
  \<open>switchTab\<close>, \<open>updateTabTitle\<close>, \<open>updateTabPath\<close>, \<open>reorderTabs\<close>, \<open>nextTab\<close>,
  \<open>previousTab\<close>, \<open>selectTabAtIndex\<close>, \<open>setDefaultNewTabPath\<close>, \<open>updateExplorerState\<close>,
  \<open>updateSelectionIds\<close>) runs to its end without an error and leaves at least one
  tab.\<close>

lemma tab_list_nonempty_after_mount:
  assumes "mount getItem newId now store = Mounted s0"
  shows "tabs s0 \<noteq> [] \<and> (\<exists>s. run ops s0 = Inr s \<and> tabs s \<noteq> [])"
  using mount_nonempty(1) [OF assms] run_nonempty [of s0 ops] by blast

lemma closeTab_single: "tabs s = [t] \<Longrightarrow> tabs (closeTab tabId s) = [t]"
  by (simp add: closeTab_def closeTabUpdater_def Let_def case_prod_beta)

lemma null_tab_snapshot_loaded:
  "loadPersistedState (Inr (Some storedNullTab)) = Some nullTabSnapshot"
  by code_simp

lemma null_tab_snapshot_members:
  "persistedTabs nullTabSnapshot = [JNull]"
  "persistedActiveTabId nullTabSnapshot = units ''a''"
  by code_simp+

text \<open>
  Claim C1 does not hold of the code: initialization does not always produce a tab list.
  For the stored snapshot \<open>{"tabs":[null],"activeTabId":"a","explorerStates":{}}\<close> the
  loader returns the parsed value (\<open>tabs\<close> is an array, \<open>activeTabId\<close> a string,
  \<open>explorerStates\<close> an object), the initialiser of \<open>tabs\<close> adopts the array
  \<open>[null]\<close>, and the initialiser of \<open>activeTabId\<close> reads \<open>t.id\<close> of \<open>null\<close>: a
  \<open>TypeError\<close> in the first render, whatever the fresh id, the clock and the store are.
  The provider does not mount and there is no tab list.
\<close>

theorem mount_throws_on_null_tab:
  "loadPersistedState (Inr (Some storedNullTab)) = Some nullTabSnapshot
   \<and> tabsInitialiser (Some nullTabSnapshot) initialTabId now = AdoptedTabs [JNull]
   \<and> activeTabIdInitialiser (Some nullTabSnapshot) (AdoptedTabs [JNull]) = Inl TypeError
   \<and> mount (Inr (Some storedNullTab)) initialTabId now store = Thrown TypeError"
proof -
  have a: "units ''a'' \<noteq> []"
    by (simp add: units_def)
  have ts: "tabsInitialiser (Some nullTabSnapshot) initialTabId now = AdoptedTabs [JNull]"
    by (simp add: tabsInitialiser_def null_tab_snapshot_members)
  have active: "activeTabIdInitialiser (Some nullTabSnapshot) (AdoptedTabs [JNull]) = Inl TypeError"
    using a by (simp add: activeTabIdInitialiser_def null_tab_snapshot_members idOf_def)
  have "mount (Inr (Some storedNullTab)) initialTabId now store = Thrown TypeError"
    by (simp add: mount_def null_tab_snapshot_loaded ts active)
  with null_tab_snapshot_loaded ts active show ?thesis
    by (intro conjI)
qed

theorem mount_throws_on_null_tab_witness:
  "mount (Inr (Some storedNullTab)) ''fresh'' 5 newExplorerStateStore = Thrown TypeError"
  using mount_throws_on_null_tab [of "''fresh''" 5 newExplorerStateStore] by (elim conjE)

lemma findIndex_first:
  "\<forall>t \<in> set pre. \<not> p t \<Longrightarrow> p x \<Longrightarrow> findIndex p (pre @ x # rest) = int (length pre)"
  by (induction pre) (auto simp: Let_def)

lemma findIndex_found:
  "findIndex p xs \<noteq> - 1 \<Longrightarrow>
     \<exists>pre x rest. xs = pre @ x # rest \<and> (\<forall>t \<in> set pre. \<not> p t) \<and> p x
       \<and> findIndex p xs = int (length pre)"
proof (induction xs)
  case Nil
  then show ?case by simp
next
  case (Cons y ys)
  show ?case
  proof (cases "p y")
    case True
    then have "y # ys = [] @ y # ys \<and> (\<forall>t \<in> set []. \<not> p t) \<and> p y
        \<and> findIndex p (y # ys) = int (length ([] :: 'a list))"
      by simp
    then show ?thesis by blast
  next
    case False
    with Cons.prems have "findIndex p ys \<noteq> - 1"
      by (auto simp: Let_def split: if_splits)
    from Cons.IH [OF this] obtain pre x rest where
      d: "ys = pre @ x # rest" "\<forall>t \<in> set pre. \<not> p t" "p x" "findIndex p ys = int (length pre)"
      by blast
    with False have "y # ys = (y # pre) @ x # rest \<and> (\<forall>t \<in> set (y # pre). \<not> p t) \<and> p x
        \<and> findIndex p (y # ys) = int (length (y # pre))"
      by (simp add: Let_def)
    then show ?thesis by blast
  qed
qed

lemma findIndex_member: "(findIndex p xs \<noteq> - 1) = (\<exists>x \<in> set xs. p x)"
proof
  assume "findIndex p xs \<noteq> - 1"
  from findIndex_found [OF this] show "\<exists>x \<in> set xs. p x" by auto
next
  assume "\<exists>x \<in> set xs. p x"
  then show "findIndex p xs \<noteq> - 1"
  proof (induction xs)
    case Nil
    then show ?case by simp
  next
    case (Cons y ys)
    then show ?case
      using findIndex_ge [of p ys] by (auto simp: Let_def)
  qed
qed

lemma filter_other_ids:
  assumes "distinct (map tab_id (pre @ x # rest))"
  shows "filter (\<lambda>t. tab_id t \<noteq> tab_id x) (pre @ x # rest) = pre @ rest"
proof -
  from assms have "\<forall>t \<in> set pre. tab_id t \<noteq> tab_id x" "\<forall>t \<in> set rest. tab_id t \<noteq> tab_id x"
    by (auto simp: image_iff)
  then show ?thesis by (simp add: filter_id_conv)
qed

text \<open>
  Claim C4. On a manager with at least two tabs whose active tab id is in the list,
  \<open>closeTab(activeTabId)\<close> leaves the tab list without the tabs of that id (as long as
  a tab of another id remains), and an active tab id that is the id of a tab of the new
  list: the id of the tab that stood immediately before the (first) tab of the closed id
  in the old list, or, when that tab was the first of the list, the id of the first tab
  of the new list. When no two tabs share an id, the new list is the old one without the
  closed tab, one tab shorter, the closed id is gone from it, the active tab id has
  changed, and when the closed tab was the first one the new active tab is the one that
  was second.
\<close>

theorem closeTab_active_moves_to_neighbour:
  assumes len: "2 \<le> length (tabs s)"
    and mem: "activeTabId s \<in> set (map tab_id (tabs s))"
  defines "i \<equiv> findIndex (\<lambda>t. tab_id t = activeTabId s) (tabs s)"
  defines "s' \<equiv> closeTab (activeTabId s) s"
  shows "tabs s' = (if list_ex (\<lambda>t. tab_id t \<noteq> activeTabId s) (tabs s)
                    then filter (\<lambda>t. tab_id t \<noteq> activeTabId s) (tabs s) else tabs s)
    \<and> activeTabId s' \<in> set (map tab_id (tabs s'))
    \<and> (if 0 < i then map_option tab_id (at_index (tabs s) (i - 1)) = Some (activeTabId s')
        else map_option tab_id (at_index (tabs s') 0) = Some (activeTabId s'))
    \<and> (distinct (map tab_id (tabs s)) \<longrightarrow>
          tabs s' = take (nat i) (tabs s) @ drop (Suc (nat i)) (tabs s)
          \<and> length (tabs s') + 1 = length (tabs s)
          \<and> activeTabId s \<notin> set (map tab_id (tabs s'))
          \<and> activeTabId s' \<noteq> activeTabId s
          \<and> (i = 0 \<longrightarrow> map_option tab_id (at_index (tabs s) 1) = Some (activeTabId s')))"
proof -
  let ?a = "activeTabId s"
  let ?p = "\<lambda>t. tab_id t = ?a"
  let ?f = "filter (\<lambda>t. tab_id t \<noteq> ?a) (tabs s)"
  have "findIndex ?p (tabs s) \<noteq> - 1"
    using mem by (auto simp: findIndex_member)
  from findIndex_found [OF this] obtain pre x rest where
    d: "tabs s = pre @ x # rest" "\<forall>t \<in> set pre. tab_id t \<noteq> ?a" "tab_id x = ?a"
      "i = int (length pre)"
    unfolding i_def by blast
  have f: "?f = pre @ filter (\<lambda>t. tab_id t \<noteq> ?a) rest"
    using d by (simp add: filter_id_conv)
  have ex: "list_ex (\<lambda>t. tab_id t \<noteq> ?a) (tabs s) \<longleftrightarrow> ?f \<noteq> []"
    by (auto simp: list_ex_iff filter_empty_conv)
  have tbs: "tabs s' = (if ?f \<noteq> [] then ?f else tabs s)"
    unfolding s'_def by (simp add: closeTab_def closeTabUpdater_def Let_def case_prod_beta)
  have old: "activeTabId s' \<in> set (map tab_id (tabs s'))
    \<and> (if 0 < i then map_option tab_id (at_index (tabs s) (i - 1)) = Some (activeTabId s')
        else map_option tab_id (at_index (tabs s') 0) = Some (activeTabId s'))"
  proof (cases pre)
    case Nil
    show ?thesis
    proof (cases "filter (\<lambda>t. tab_id t \<noteq> ?a) rest")
      case Nil2: Nil
      with Nil d f show ?thesis
        unfolding s'_def by (simp add: closeTab_def closeTabUpdater_def Let_def at_index_def)
    next
      case (Cons y ys)
      with Nil d f show ?thesis
        unfolding s'_def
        by (simp add: closeTab_def closeTabUpdater_def Let_def at_index_def findIndex_first)
    qed
  next
    case (Cons y ys)
    have idx: "findIndex ?p (tabs s) = int (length pre)"
      using d unfolding i_def by simp
    have pos: "0 < length pre" using Cons by simp
    have n1: "nat (int (length pre) - 1) = length pre - 1" by simp
    have at: "at_index ?f (int (length pre) - 1) = Some (pre ! (length pre - 1))"
      using pos f by (simp add: at_index_def nth_append n1 del: of_nat_diff)
    have at2: "at_index (tabs s) (int (length pre) - 1) = Some (pre ! (length pre - 1))"
      using pos d by (simp add: at_index_def nth_append n1)
    have ne: "?f \<noteq> []" using f Cons by simp
    have in_f: "pre ! (length pre - 1) \<in> set ?f"
      using f pos by simp
    have mx: "max 0 (int (length pre) - 1) = int (length pre) - 1" using pos by simp
    have act: "activeTabId s' = tab_id (pre ! (length pre - 1))" and tbs: "tabs s' = ?f"
      unfolding s'_def using ne idx at
      by (simp_all add: closeTab_def closeTabUpdater_def Let_def mx)
    show ?thesis
      using act tbs in_f ne at2 pos d(4) by simp
  qed
  have dist: "tabs s' = take (nat i) (tabs s) @ drop (Suc (nat i)) (tabs s)
          \<and> length (tabs s') + 1 = length (tabs s)
          \<and> activeTabId s \<notin> set (map tab_id (tabs s'))
          \<and> activeTabId s' \<noteq> activeTabId s
          \<and> (i = 0 \<longrightarrow> map_option tab_id (at_index (tabs s) 1) = Some (activeTabId s'))"
    if distinct: "distinct (map tab_id (tabs s))"
  proof -
    have ff: "?f = pre @ rest"
      using filter_other_ids [of pre x rest] distinct d by simp
    have "pre @ rest \<noteq> []" using len d(1) by (cases pre; cases rest) auto
    with ff tbs have t: "tabs s' = pre @ rest" by simp
    have td: "take (nat i) (tabs s) @ drop (Suc (nat i)) (tabs s) = pre @ rest"
      using d by simp
    have notin: "?a \<notin> set (map tab_id (pre @ rest))"
      using distinct d by auto
    have in': "activeTabId s' \<in> set (map tab_id (pre @ rest))"
      using old t by simp
    have first: "i = 0 \<longrightarrow> map_option tab_id (at_index (tabs s) 1) = Some (activeTabId s')"
    proof
      assume "i = 0"
      with d have pre: "pre = []" by simp
      with \<open>pre @ rest \<noteq> []\<close> obtain y ys where rest: "rest = y # ys" by (cases rest) auto
      from old \<open>i = 0\<close> t pre rest have "activeTabId s' = tab_id y"
        by (simp add: at_index_def)
      with d(1) pre rest show "map_option tab_id (at_index (tabs s) 1) = Some (activeTabId s')"
        by (simp add: at_index_def)
    qed
    have neq: "activeTabId s' \<noteq> ?a"
      using notin in' by metis
    have lens: "length (tabs s') + 1 = length (tabs s)"
      using t d(1) by simp
    have sh: "tabs s' = take (nat i) (tabs s) @ drop (Suc (nat i)) (tabs s)"
      using t td by simp
    have notin': "?a \<notin> set (map tab_id (tabs s'))"
      using notin t by simp
    from sh lens notin' neq first show ?thesis by blast
  qed
  have c1: "tabs s' = (if list_ex (\<lambda>t. tab_id t \<noteq> activeTabId s) (tabs s)
                    then filter (\<lambda>t. tab_id t \<noteq> activeTabId s) (tabs s) else tabs s)"
    using tbs ex by simp
  from c1 old dist show ?thesis by blast
qed

theorem closeTab_active_moves_to_neighbour_witness:
  "2 \<le> length (tabs threeTabs)
   \<and> distinct (map tab_id (tabs threeTabs))
   \<and> map tab_id (tabs threeTabs) = [''a'', ''b'', ''c'']
   \<and> activeTabId threeTabs = ''b''
   \<and> tabs (closeTab ''b'' threeTabs) = [tabA, tabC]
   \<and> activeTabId (closeTab ''b'' threeTabs) = ''a''
   \<and> tabs threeTabsFirst = tabs threeTabs
   \<and> activeTabId threeTabsFirst = ''a''
   \<and> tabs (closeTab ''a'' threeTabsFirst) = [tabB, tabC]
   \<and> activeTabId (closeTab ''a'' threeTabsFirst) = ''b''"
proof -
  have ids: "map tab_id (tabs threeTabs) = [''a'', ''b'', ''c'']"
    by (simp add: threeTabs_def tabA_def tabB_def tabC_def)
  have len: "2 \<le> length (tabs threeTabs)"
    by (simp add: threeTabs_def)
  have dist: "distinct (map tab_id (tabs threeTabs))"
    unfolding ids by simp
  have same: "tabs threeTabsFirst = tabs threeTabs"
    by (simp add: threeTabsFirst_def)
  have actB: "activeTabId threeTabs = ''b''"
    by (simp add: threeTabs_def)
  have actA: "activeTabId threeTabsFirst = ''a''"
    by (simp add: threeTabsFirst_def)
  have memB: "activeTabId threeTabs \<in> set (map tab_id (tabs threeTabs))"
    unfolding ids actB by simp
  have memA: "activeTabId threeTabsFirst \<in> set (map tab_id (tabs threeTabsFirst))"
    unfolding same ids actA by simp
  have iB: "findIndex (\<lambda>t. tab_id t = activeTabId threeTabs) (tabs threeTabs) = 1"
    by (simp add: threeTabs_def tabA_def tabB_def tabC_def)
  have iA: "findIndex (\<lambda>t. tab_id t = activeTabId threeTabsFirst) (tabs threeTabsFirst) = 0"
    by (simp add: threeTabsFirst_def threeTabs_def tabA_def tabB_def tabC_def)
  have lenA: "2 \<le> length (tabs threeTabsFirst)"
    unfolding same by (rule len)
  have distA: "distinct (map tab_id (tabs threeTabsFirst))"
    unfolding same by (rule dist)
  note middle = closeTab_active_moves_to_neighbour [OF len memB]
  note first = closeTab_active_moves_to_neighbour [OF lenA memA]
  from middle dist have mt: "tabs (closeTab (activeTabId threeTabs) threeTabs)
      = take (nat 1) (tabs threeTabs) @ drop (Suc (nat 1)) (tabs threeTabs)"
    unfolding iB by blast
  from middle have "map_option tab_id (at_index (tabs threeTabs) (1 - 1))
      = Some (activeTabId (closeTab (activeTabId threeTabs) threeTabs))"
    unfolding iB by simp
  then have ma: "activeTabId (closeTab ''b'' threeTabs) = ''a''"
    unfolding actB by (simp add: at_index_def threeTabs_def tabA_def)
  from mt have mt': "tabs (closeTab ''b'' threeTabs) = [tabA, tabC]"
    unfolding actB by (simp add: threeTabs_def)
  from first distA have ft: "tabs (closeTab (activeTabId threeTabsFirst) threeTabsFirst)
      = take (nat 0) (tabs threeTabsFirst) @ drop (Suc (nat 0)) (tabs threeTabsFirst)"
    and fa: "map_option tab_id (at_index (tabs threeTabsFirst) 1)
      = Some (activeTabId (closeTab (activeTabId threeTabsFirst) threeTabsFirst))"
    unfolding iA by blast+
  from ft have ft': "tabs (closeTab ''a'' threeTabsFirst) = [tabB, tabC]"
    unfolding actA by (simp add: threeTabsFirst_def threeTabs_def)
  from fa have fa': "activeTabId (closeTab ''a'' threeTabsFirst) = ''b''"
    unfolding actA by (simp add: at_index_def threeTabsFirst_def threeTabs_def tabB_def)
  from len dist ids actB mt' ma same actA ft' fa' show ?thesis
    by (intro conjI)
qed

lemma reorderUpdater_swap_forward:
  assumes pre: "\<forall>t \<in> set pre. tab_id t \<noteq> a \<and> tab_id t \<noteq> b"
    and x: "tab_id x = a" and y: "tab_id y = b" and ab: "a \<noteq> b"
  shows "reorderUpdater a b (pre @ x # y # post) = pre @ y # x # post"
proof -
  have i: "findIndex (\<lambda>tab. tab_id tab = a) (pre @ x # y # post) = int (length pre)"
    using pre x by (simp add: findIndex_first)
  have "findIndex (\<lambda>tab. tab_id tab = b) ((pre @ [x]) @ y # post) = int (length (pre @ [x]))"
    using pre x y ab by (intro findIndex_first) auto
  then have j: "findIndex (\<lambda>tab. tab_id tab = b) (pre @ x # y # post) = int (length pre) + 1"
    by simp
  have n: "nat (int (length pre) + 1) = Suc (length pre)" by simp
  show ?thesis
    by (simp add: reorderUpdater_def i j Let_def at_index_def nth_append n)
qed

lemma reorderUpdater_swap_backward:
  assumes pre: "\<forall>t \<in> set pre. tab_id t \<noteq> a \<and> tab_id t \<noteq> b"
    and x: "tab_id x = a" and y: "tab_id y = b" and ab: "a \<noteq> b"
  shows "reorderUpdater b a (pre @ x # y # post) = pre @ y # x # post"
proof -
  have i: "findIndex (\<lambda>tab. tab_id tab = a) (pre @ x # y # post) = int (length pre)"
    using pre x by (simp add: findIndex_first)
  have "findIndex (\<lambda>tab. tab_id tab = b) ((pre @ [x]) @ y # post) = int (length (pre @ [x]))"
    using pre x y ab by (intro findIndex_first) auto
  then have j: "findIndex (\<lambda>tab. tab_id tab = b) (pre @ x # y # post) = int (length pre) + 1"
    by simp
  have n: "nat (int (length pre) + 1) = Suc (length pre)" by simp
  show ?thesis
    by (simp add: reorderUpdater_def i j Let_def at_index_def nth_append n)
qed

lemma reorderUpdater_noop:
  "a \<notin> set (map tab_id prev) \<or> b \<notin> set (map tab_id prev) \<or> a = b
     \<Longrightarrow> reorderUpdater a b prev = prev"
proof -
  assume h: "a \<notin> set (map tab_id prev) \<or> b \<notin> set (map tab_id prev) \<or> a = b"
  have "findIndex (\<lambda>tab. tab_id tab = a) prev = - 1
      \<or> findIndex (\<lambda>tab. tab_id tab = b) prev = - 1
      \<or> findIndex (\<lambda>tab. tab_id tab = a) prev = findIndex (\<lambda>tab. tab_id tab = b) prev"
    using h findIndex_member [of "\<lambda>tab. tab_id tab = a" prev]
      findIndex_member [of "\<lambda>tab. tab_id tab = b" prev]
    by auto
  then show ?thesis
    by (auto simp: reorderUpdater_def Let_def)
qed

lemma adjacent_decomp:
  assumes i: "findIndex (\<lambda>tab. tab_id tab = a) prev \<noteq> - 1"
    and j: "findIndex (\<lambda>tab. tab_id tab = b) prev
              = findIndex (\<lambda>tab. tab_id tab = a) prev + 1"
  shows "\<exists>pre x y post. prev = pre @ x # y # post
           \<and> (\<forall>t \<in> set pre. tab_id t \<noteq> a \<and> tab_id t \<noteq> b) \<and> tab_id x = a \<and> tab_id y = b"
proof -
  from findIndex_found [OF i] obtain pre x rest where
    d: "prev = pre @ x # rest" "\<forall>t \<in> set pre. tab_id t \<noteq> a" "tab_id x = a"
      "findIndex (\<lambda>tab. tab_id tab = a) prev = int (length pre)"
    by blast
  have jn: "findIndex (\<lambda>tab. tab_id tab = b) prev \<noteq> - 1"
    using j d(4) by simp
  from findIndex_found [OF jn] obtain pre' y post where
    e: "prev = pre' @ y # post" "\<forall>t \<in> set pre'. tab_id t \<noteq> b" "tab_id y = b"
      "findIndex (\<lambda>tab. tab_id tab = b) prev = int (length pre')"
    by blast
  have len: "length pre' = Suc (length pre)"
    using j d(4) e(4) by simp
  have "take (Suc (length pre)) prev = pre @ [x]"
    using d(1) by simp
  moreover have "take (Suc (length pre)) prev = pre'"
    using e(1) len by simp
  ultimately have pre': "pre' = pre @ [x]" by simp
  with d(1) e(1) have rest: "rest = y # post" by simp
  from pre' e(2) d(2) have "\<forall>t \<in> set pre. tab_id t \<noteq> a \<and> tab_id t \<noteq> b" by simp
  with d rest e(3) show ?thesis by blast
qed

lemma reorderUpdater_neighbours_round_trip:
  assumes ab: "a \<noteq> b"
    and i: "findIndex (\<lambda>tab. tab_id tab = a) prev \<noteq> - 1"
    and j: "findIndex (\<lambda>tab. tab_id tab = b) prev \<noteq> - 1"
    and adj: "\<bar>findIndex (\<lambda>tab. tab_id tab = a) prev - findIndex (\<lambda>tab. tab_id tab = b) prev\<bar> = 1"
  shows "reorderUpdater b a (reorderUpdater a b prev) = prev"
proof -
  let ?i = "findIndex (\<lambda>tab. tab_id tab = a) prev"
  let ?j = "findIndex (\<lambda>tab. tab_id tab = b) prev"
  from adj consider "?j = ?i + 1" | "?i = ?j + 1" by linarith
  then show ?thesis
  proof cases
    case 1
    from adjacent_decomp [OF i 1] obtain pre x y post where
      d: "prev = pre @ x # y # post" "\<forall>t \<in> set pre. tab_id t \<noteq> a \<and> tab_id t \<noteq> b"
        "tab_id x = a" "tab_id y = b"
      by blast
    have "reorderUpdater a b prev = pre @ y # x # post"
      unfolding d(1) using d(2,3,4) ab by (rule reorderUpdater_swap_forward)
    moreover have "reorderUpdater b a (pre @ y # x # post) = pre @ x # y # post"
      using d(2,3,4) ab by (intro reorderUpdater_swap_forward) auto
    ultimately show ?thesis using d(1) by simp
  next
    case 2
    from adjacent_decomp [OF j 2] obtain pre y x post where
      d: "prev = pre @ y # x # post" "\<forall>t \<in> set pre. tab_id t \<noteq> b \<and> tab_id t \<noteq> a"
        "tab_id y = b" "tab_id x = a"
      by blast
    have "reorderUpdater a b prev = pre @ x # y # post"
      unfolding d(1) using d(2,3,4) ab by (intro reorderUpdater_swap_backward) auto
    moreover have "reorderUpdater b a (pre @ x # y # post) = pre @ y # x # post"
      using d(2,3,4) ab by (intro reorderUpdater_swap_backward) auto
    ultimately show ?thesis using d(1) by simp
  qed
qed

text \<open>
  Claim C8, as the specification states it, fails: for two tabs that are not neighbours
  the second call does not undo the first. In the list \<open>a, b, c\<close> the call
  \<open>reorderTabs(a, c)\<close> gives \<open>b, c, a\<close>, and \<open>reorderTabs(c, a)\<close> then gives
  \<open>b, a, c\<close>.
\<close>

theorem reorder_round_trip_counterexample:
  "''a'' \<noteq> ''c''
   \<and> ''a'' \<in> set (map tab_id (tabs threeTabs))
   \<and> ''c'' \<in> set (map tab_id (tabs threeTabs))
   \<and> map tab_id (tabs threeTabs) = [''a'', ''b'', ''c'']
   \<and> map tab_id (tabs (reorderTabs ''a'' ''c'' threeTabs)) = [''b'', ''c'', ''a'']
   \<and> map tab_id (tabs (reorderTabs ''c'' ''a'' (reorderTabs ''a'' ''c'' threeTabs)))
       = [''b'', ''a'', ''c'']
   \<and> tabs (reorderTabs ''c'' ''a'' (reorderTabs ''a'' ''c'' threeTabs)) \<noteq> tabs threeTabs"
  by (simp add: reorderTabs_def reorderUpdater_def threeTabs_def tabA_def tabB_def tabC_def
      Let_def at_index_def)

text \<open>
  Claim C8, amended. When the ids \<open>a\<close> and \<open>b\<close> are distinct, both occur in the tab
  list and their (first) tabs are neighbours, \<open>reorderTabs(a, b)\<close> followed by
  \<open>reorderTabs(b, a)\<close> restores the manager; and \<open>reorderTabs(a, b)\<close> changes nothing
  when either id is missing from the list or the two ids are equal.
\<close>

theorem reorder_neighbours_round_trip:
  fixes s :: TabManager and a b :: string
  defines "i \<equiv> findIndex (\<lambda>tab. tab_id tab = a) (tabs s)"
  defines "j \<equiv> findIndex (\<lambda>tab. tab_id tab = b) (tabs s)"
  shows "(a \<noteq> b \<and> i \<noteq> - 1 \<and> j \<noteq> - 1 \<and> \<bar>i - j\<bar> = 1
            \<longrightarrow> reorderTabs b a (reorderTabs a b s) = s)
    \<and> (a \<notin> set (map tab_id (tabs s)) \<or> b \<notin> set (map tab_id (tabs s)) \<or> a = b
            \<longrightarrow> reorderTabs a b s = s)"
proof (intro conjI impI)
  assume "a \<noteq> b \<and> i \<noteq> - 1 \<and> j \<noteq> - 1 \<and> \<bar>i - j\<bar> = 1"
  then have "reorderUpdater b a (reorderUpdater a b (tabs s)) = tabs s"
    unfolding i_def j_def by (intro reorderUpdater_neighbours_round_trip) simp_all
  then show "reorderTabs b a (reorderTabs a b s) = s"
    by (simp add: reorderTabs_def)
next
  assume "a \<notin> set (map tab_id (tabs s)) \<or> b \<notin> set (map tab_id (tabs s)) \<or> a = b"
  then have "reorderUpdater a b (tabs s) = tabs s"
    by (rule reorderUpdater_noop)
  then show "reorderTabs a b s = s"
    by (simp add: reorderTabs_def)
qed

theorem reorder_neighbours_round_trip_witness:
  "map tab_id (tabs (reorderTabs ''a'' ''b'' threeTabs)) = [''b'', ''a'', ''c'']
   \<and> reorderTabs ''b'' ''a'' (reorderTabs ''a'' ''b'' threeTabs) = threeTabs
   \<and> reorderTabs ''a'' ''zz'' threeTabs = threeTabs
   \<and> reorderTabs ''c'' ''c'' threeTabs = threeTabs"
proof -
  have moved: "map tab_id (tabs (reorderTabs ''a'' ''b'' threeTabs)) = [''b'', ''a'', ''c'']"
    by (simp add: reorderTabs_def reorderUpdater_def threeTabs_def tabA_def tabB_def tabC_def
        Let_def at_index_def)
  have adjacent: "''a'' \<noteq> ''b''
      \<and> findIndex (\<lambda>tab. tab_id tab = ''a'') (tabs threeTabs) \<noteq> - 1
      \<and> findIndex (\<lambda>tab. tab_id tab = ''b'') (tabs threeTabs) \<noteq> - 1
      \<and> \<bar>findIndex (\<lambda>tab. tab_id tab = ''a'') (tabs threeTabs)
          - findIndex (\<lambda>tab. tab_id tab = ''b'') (tabs threeTabs)\<bar> = 1"
    by (simp add: threeTabs_def tabA_def tabB_def tabC_def)
  have missing: "''zz'' \<notin> set (map tab_id (tabs threeTabs))"
    by (simp add: threeTabs_def tabA_def tabB_def tabC_def)
  from reorder_neighbours_round_trip [of "''a''" "''b''" threeTabs] adjacent
  have restored: "reorderTabs ''b'' ''a'' (reorderTabs ''a'' ''b'' threeTabs) = threeTabs"
    by blast
  from reorder_neighbours_round_trip [of "''a''" "''zz''" threeTabs] missing
  have unknown: "reorderTabs ''a'' ''zz'' threeTabs = threeTabs"
    by blast
  from reorder_neighbours_round_trip [of "''c''" "''c''" threeTabs]
  have same: "reorderTabs ''c'' ''c'' threeTabs = threeTabs"
    by blast
  from moved restored unknown same show ?thesis
    by blast
qed

lemma textValue_nonempty: "us \<noteq> [] \<Longrightarrow> textValue us \<noteq> Text []"
  by (auto simp: textValue_def narrow_def split: option.splits if_splits)

lemma physicalPathTitle_nonempty: "physicalPathTitle p = Some t \<Longrightarrow> t \<noteq> Text []"
  by (auto simp: physicalPathTitle_def Let_def textValue_nonempty
      split: option.splits if_splits json.splits)

lemma deriveTitleFromPath_nonempty: "deriveTitleFromPath pathname search \<noteq> Text []"
proof -
  have route: "truthyTitle (routeTitlesAt pathname) \<Longrightarrow>
      (case routeTitlesAt pathname of Some v \<Rightarrow> v | None \<Rightarrow> Text ''Spacedrive'') \<noteq> Text []"
    by (auto simp: truthyTitle_def split: option.splits TitleValue.splits)
  show ?thesis
    using route physicalPathTitle_nonempty
    by (auto simp: deriveTitleFromPath_def Let_def split: option.splits)
qed

text \<open>
  Claim C10. \<open>createTab('', path)\<close> does not use the empty title: the new tab (the
  last of the list) has the title derived from the resolved path (the \<open>path\<close> argument,
  or the manager's default path when it is absent), which is never the empty text, and the
  whole call does what \<open>createTab(undefined, path)\<close> does.
\<close>

theorem createTab_empty_title_is_derived:
  fixes s :: TabManager and pathArg :: "string option" and newId :: string and now :: real
  defines "tabPath \<equiv> (case pathArg of Some p \<Rightarrow> p | None \<Rightarrow> defaultNewTabPath s)"
  defines "s' \<equiv> createTab (Some '''') pathArg newId now s"
  shows "title (last (tabs s')) = titleOfTabPath tabPath
    \<and> title (last (tabs s')) \<noteq> Text ''''
    \<and> s' = createTab None pathArg newId now s"
  unfolding s'_def tabPath_def
  by (simp add: createTab_def Let_def titleOfTabPath_def deriveTitleFromPath_nonempty)

theorem createTab_empty_title_is_derived_witness:
  "title (last (tabs (createTab (Some '''') (Some ''/favorites'') ''n'' 7 oneTab)))
     = Text ''Favorites''
   \<and> title (last (tabs (createTab (Some '''') None ''n'' 7 oneTab))) = Text ''Overview''
   \<and> title (last (tabs (createTab (Some ''Mine'') None ''n'' 7 oneTab))) = Text ''Mine''"
proof -
  have fav: "titleOfTabPath ''/favorites'' = Text ''Favorites''"
    by (simp add: titleOfTabPath_def deriveTitleFromPath_def routeTitlesAt_def routeTitles_def
        truthyTitle_def)
  have root: "titleOfTabPath (defaultNewTabPath oneTab) = Text ''Overview''"
    by (simp add: oneTab_def titleOfTabPath_def deriveTitleFromPath_def routeTitlesAt_def
        routeTitles_def truthyTitle_def)
  have mine: "title (last (tabs (createTab (Some ''Mine'') None ''n'' 7 oneTab))) = Text ''Mine''"
    by (simp add: createTab_def Let_def)
  from createTab_empty_title_is_derived
      [where pathArg = "Some ''/favorites''" and s = oneTab and newId = "''n''" and now = 7, THEN conjunct1]
  have "title (last (tabs (createTab (Some '''') (Some ''/favorites'') ''n'' 7 oneTab)))
      = titleOfTabPath ''/favorites''"
    by (simp only: option.case)
  with fav have given: "title (last (tabs (createTab (Some '''') (Some ''/favorites'') ''n'' 7
      oneTab))) = Text ''Favorites''"
    by simp
  from createTab_empty_title_is_derived
      [where pathArg = None and s = oneTab and newId = "''n''" and now = 7, THEN conjunct1]
  have "title (last (tabs (createTab (Some '''') None ''n'' 7 oneTab)))
      = titleOfTabPath (defaultNewTabPath oneTab)"
    by (simp only: option.case)
  with root have default: "title (last (tabs (createTab (Some '''') None ''n'' 7 oneTab)))
      = Text ''Overview''"
    by simp
  from given default mine show ?thesis
    by blast
qed

text \<open>What the operations that take a tab id do with an id that no tab has:
  \<open>updateTabTitle\<close>, \<open>updateTabPath\<close> and \<open>reorderTabs\<close> change nothing, and
  \<open>closeTab\<close> and \<open>switchTab\<close> leave the tab list as it is.\<close>

lemma unknown_id_tab_list:
  assumes "tabId \<notin> set (map tab_id (tabs s))"
  shows "updateTabTitle tabId t s = s"
    and "updateTabPath tabId p s = s"
    and "reorderTabs tabId other s = s"
    and "reorderTabs other tabId s = s"
    and "tabs (closeTab tabId s) = tabs s"
    and "tabs (switchTab tabId now s) = tabs s"
proof -
  have m: "map (\<lambda>tab. if tab_id tab = tabId then f tab else tab) (tabs s) = tabs s" for f
    using assms by (intro map_idI) auto
  have f: "filter (\<lambda>t. tab_id t \<noteq> tabId) (tabs s) = tabs s"
    using assms by (auto simp: filter_id_conv)
  show "updateTabTitle tabId t s = s" by (simp add: updateTabTitle_def m)
  show "updateTabPath tabId p s = s" by (simp add: updateTabPath_def m)
  show "reorderTabs tabId other s = s"
    using assms by (simp add: reorderTabs_def reorderUpdater_noop)
  show "reorderTabs other tabId s = s"
    using assms by (simp add: reorderTabs_def reorderUpdater_noop)
  show "tabs (switchTab tabId now s) = tabs s" by (simp add: switchTab_def m)
  show "tabs (closeTab tabId s) = tabs s"
    by (simp add: closeTab_def closeTabUpdater_def Let_def f case_prod_beta)
qed

text \<open>
  Claim C2, as the specification states it, fails. \<open>closeTab\<close> with an id that no tab
  has still runs both clean-ups, so it deletes the explorer state stored under that id:
  after \<open>updateExplorerState('zz', {sortBy: 'size'})\<close> the store has an entry for
  \<open>zz\<close>, and \<open>closeTab('zz')\<close> removes it. And \<open>switchTab\<close> with an id that no tab
  has passes its only test (the id is not the active one) and calls \<open>setActiveTabId\<close>
  with it: on the manager with the tabs \<open>a\<close>, \<open>b\<close>, \<open>c\<close> and \<open>b\<close> active,
  \<open>switchTab('zz')\<close> makes \<open>zz\<close> the active tab id.
\<close>

theorem unknown_id_not_a_noop_counterexample:
  "''zz'' \<notin> set (map tab_id (tabs threeTabs))
   \<and> getExplorerState (updateExplorerState ''zz'' sortBySizeUpdate threeTabs) ''zz''
       = DEFAULT_EXPLORER_STATE\<lparr> sortBy := Size \<rparr>
   \<and> getExplorerState
         (closeTab ''zz'' (updateExplorerState ''zz'' sortBySizeUpdate threeTabs)) ''zz''
       = DEFAULT_EXPLORER_STATE
   \<and> sortBy DEFAULT_EXPLORER_STATE \<noteq> Size
   \<and> activeTabId threeTabs = ''b''
   \<and> activeTabId (switchTab ''zz'' 9 threeTabs) = ''zz''
   \<and> activeTabId (switchTab ''zz'' 9 threeTabs)
       \<notin> set (map tab_id (tabs (switchTab ''zz'' 9 threeTabs)))
   \<and> tabs (switchTab ''zz'' 9 threeTabs) = tabs threeTabs
   \<and> map_of (states (explorerStateStore (switchTab ''zz'' 9 threeTabs))) ''zz'' = None
   \<and> map_of (selectionStates (switchTab ''zz'' 9 threeTabs)) ''zz'' = None
   \<and> activeTabId (closeTab ''zz'' (switchTab ''zz'' 9 threeTabs)) = ''a''
   \<and> closeTab ''zz'' (switchTab ''zz'' 9 threeTabs) \<noteq> switchTab ''zz'' 9 threeTabs"
proof -
  have unknown: "''zz'' \<notin> set (map tab_id (tabs threeTabs))"
    by (simp add: threeTabs_def tabA_def tabB_def tabC_def)
  have stored: "getExplorerState (updateExplorerState ''zz'' sortBySizeUpdate threeTabs) ''zz''
       = DEFAULT_EXPLORER_STATE\<lparr> sortBy := Size \<rparr>"
    by (simp add: threeTabs_def getExplorerState_def updateExplorerState_def Let_def
        getState_def updateState_def spread_def sortBySizeUpdate_def DEFAULT_EXPLORER_STATE_def)
  have deleted: "getExplorerState
         (closeTab ''zz'' (updateExplorerState ''zz'' sortBySizeUpdate threeTabs)) ''zz''
       = DEFAULT_EXPLORER_STATE"
    by (simp add: threeTabs_def getExplorerState_def updateExplorerState_def closeTab_def
        case_prod_beta Let_def getState_def updateState_def deleteState_def)
  have differ: "sortBy DEFAULT_EXPLORER_STATE \<noteq> Size"
    by (simp add: DEFAULT_EXPLORER_STATE_def)
  have sw: "switchTab ''zz'' 9 threeTabs = threeTabs\<lparr> activeTabId := ''zz'' \<rparr>"
    by (simp add: switchTab_def threeTabs_def tabA_def tabB_def tabC_def)
  have active: "activeTabId threeTabs = ''b''"
    by (simp add: threeTabs_def)
  have dangling: "activeTabId (switchTab ''zz'' 9 threeTabs) = ''zz''"
    "activeTabId (switchTab ''zz'' 9 threeTabs)
       \<notin> set (map tab_id (tabs (switchTab ''zz'' 9 threeTabs)))"
    "tabs (switchTab ''zz'' 9 threeTabs) = tabs threeTabs"
    "map_of (states (explorerStateStore (switchTab ''zz'' 9 threeTabs))) ''zz'' = None"
    "map_of (selectionStates (switchTab ''zz'' 9 threeTabs)) ''zz'' = None"
    unfolding sw by (simp_all add: threeTabs_def tabA_def tabB_def tabC_def)
  have moved: "activeTabId (closeTab ''zz'' (switchTab ''zz'' 9 threeTabs)) = ''a''"
    unfolding sw
    by (simp add: closeTab_def closeTabUpdater_def Let_def threeTabs_def tabA_def tabB_def
        tabC_def at_index_def)
  from moved dangling(1)
  have changed: "closeTab ''zz'' (switchTab ''zz'' 9 threeTabs) \<noteq> switchTab ''zz'' 9 threeTabs"
    by auto
  from unknown stored deleted differ active dangling moved changed show ?thesis
    by (intro conjI)
qed

lemma alist_delete_absent: "map_of al k = None \<Longrightarrow> AList.delete k al = al"
  by (induction al) (auto split: if_splits)

lemma propertyOrder_filter:
  "propertyOrder name (filter P ps) = filter P (propertyOrder name ps)"
  by (simp add: propertyOrder_def filter_sort conj_commute)

lemma propertyOrder_set: "set (propertyOrder name ps) = set ps"
  by (auto simp: propertyOrder_def)

lemma getAllStates_delete:
  "getAllStates (snd (deleteState tabId store)) = AList.delete tabId (getAllStates store)"
  by (simp add: getAllStates_def deleteState_def Let_def AList.delete_eq propertyOrder_filter)

lemma getAllStates_absent:
  "map_of (getAllStates store) tabId = None \<longleftrightarrow> map_of (states store) tabId = None"
  by (simp add: getAllStates_def map_of_eq_None_iff propertyOrder_set)

text \<open>
  Claim C2, amended. For a tab id that no tab of the list has, none of \<open>switchTab\<close>,
  \<open>closeTab\<close>, \<open>updateTabTitle\<close>, \<open>updateTabPath\<close> and \<open>reorderTabs\<close> (with the id in
  either position) raises an error, and each leaves the tab list as it is.
  \<open>updateTabTitle\<close>, \<open>updateTabPath\<close> and \<open>reorderTabs\<close> leave the whole manager as it
  is, and \<open>switchTab\<close> leaves both stores as they are. \<open>closeTab\<close> leaves the active
  tab id as it is unless the id is itself the active tab id, and then makes the first tab
  of the list the active one; it removes from the explorer state store and from the
  selection states what they hold under the id and nothing else; and it changes nothing
  at all when the id is not the active tab id and both hold nothing under it. (What
  \<open>switchTab\<close> does to the active tab id is left open.)
\<close>

theorem unknown_id_operations:
  assumes unknown: "tabId \<notin> set (map tab_id (tabs s))"
  shows "(\<forall>op \<in> set [SwitchTab tabId now, CloseTab tabId, UpdateTabTitle tabId t,
                      UpdateTabPath tabId p, ReorderTabs tabId other, ReorderTabs other tabId].
            \<exists>s'. step op s = Inr s' \<and> tabs s' = tabs s)
    \<and> updateTabTitle tabId t s = s
    \<and> updateTabPath tabId p s = s
    \<and> reorderTabs tabId other s = s
    \<and> reorderTabs other tabId s = s
    \<and> explorerStateStore (switchTab tabId now s) = explorerStateStore s
    \<and> selectionStates (switchTab tabId now s) = selectionStates s
    \<and> activeTabId (closeTab tabId s)
        = (if tabId = activeTabId s
           then (case tabs s of [] \<Rightarrow> activeTabId s | first # _ \<Rightarrow> tab_id first)
           else activeTabId s)
    \<and> getAllStates (explorerStateStore (closeTab tabId s))
        = AList.delete tabId (getAllStates (explorerStateStore s))
    \<and> listeners (explorerStateStore (closeTab tabId s)) = listeners (explorerStateStore s)
    \<and> selectionStates (closeTab tabId s) = AList.delete tabId (selectionStates s)
    \<and> (tabId \<noteq> activeTabId s \<and> map_of (getAllStates (explorerStateStore s)) tabId = None
         \<and> map_of (selectionStates s) tabId = None \<longrightarrow> closeTab tabId s = s)"
proof -
  note facts = unknown_id_tab_list [OF unknown]
  have steps: "\<forall>op \<in> set [SwitchTab tabId now, CloseTab tabId, UpdateTabTitle tabId t,
                      UpdateTabPath tabId p, ReorderTabs tabId other, ReorderTabs other tabId].
            \<exists>s'. step op s = Inr s' \<and> tabs s' = tabs s"
    using facts by simp
  have sw: "explorerStateStore (switchTab tabId now s) = explorerStateStore s"
    "selectionStates (switchTab tabId now s) = selectionStates s"
    by (simp_all add: switchTab_def)
  have f: "filter (\<lambda>t. tab_id t \<noteq> tabId) (tabs s) = tabs s"
    using unknown by (auto simp: filter_id_conv)
  have upd: "tabId \<noteq> activeTabId s \<Longrightarrow>
      closeTabUpdater tabId (activeTabId s) (tabs s) = (tabs s, None)"
    by (simp add: closeTabUpdater_def Let_def f)
  have act: "activeTabId (closeTab tabId s)
        = (if tabId = activeTabId s
           then (case tabs s of [] \<Rightarrow> activeTabId s | first # _ \<Rightarrow> tab_id first)
           else activeTabId s)"
  proof (cases "tabId = activeTabId s")
    case False
    with upd show ?thesis by (simp add: closeTab_def)
  next
    case True
    from unknown have idx: "findIndex (\<lambda>t. tab_id t = tabId) (tabs s) = - 1"
      using findIndex_member [of "\<lambda>t. tab_id t = tabId" "tabs s"] by auto
    have "closeTabUpdater tabId tabId (tabs s) =
        (if length (tabs s) = 0 then (tabs s, None)
         else (tabs s, map_option tab_id (case at_index (tabs s) 0 of
                                            Some t \<Rightarrow> Some t
                                          | None \<Rightarrow> at_index (tabs s) 0)))"
      unfolding closeTabUpdater_def Let_def f idx by simp
    then have "closeTabUpdater tabId (activeTabId s) (tabs s) =
        (tabs s, case tabs s of [] \<Rightarrow> None | first # _ \<Rightarrow> Some (tab_id first))"
      unfolding True [symmetric] by (cases "tabs s") (simp_all add: at_index_def)
    with True show ?thesis
      by (cases "tabs s") (simp_all add: closeTab_def)
  qed
  have st: "getAllStates (explorerStateStore (closeTab tabId s))
        = AList.delete tabId (getAllStates (explorerStateStore s))"
    using getAllStates_delete [of tabId "explorerStateStore s"]
    by (simp add: closeTab_def case_prod_beta)
  have ls: "listeners (explorerStateStore (closeTab tabId s)) = listeners (explorerStateStore s)"
    and sel: "selectionStates (closeTab tabId s) = AList.delete tabId (selectionStates s)"
    by (simp_all add: closeTab_def deleteState_def Let_def case_prod_beta)
  have noop: "tabId \<noteq> activeTabId s \<and> map_of (getAllStates (explorerStateStore s)) tabId = None
         \<and> map_of (selectionStates s) tabId = None \<longrightarrow> closeTab tabId s = s"
    using upd
    by (auto simp: closeTab_def getAllStates_absent deleteState_def Let_def alist_delete_absent)
  from steps facts(1-4) sw act st ls sel noop show ?thesis
    by blast
qed

theorem unknown_id_operations_witness:
  "''zz'' \<notin> set (map tab_id (tabs threeTabs))
   \<and> updateTabTitle ''zz'' ''New'' threeTabs = threeTabs
   \<and> updateTabPath ''zz'' ''/jobs'' threeTabs = threeTabs
   \<and> reorderTabs ''zz'' ''a'' threeTabs = threeTabs
   \<and> reorderTabs ''a'' ''zz'' threeTabs = threeTabs
   \<and> explorerStateStore (switchTab ''zz'' 9 threeTabs) = explorerStateStore threeTabs
   \<and> activeTabId (closeTab ''zz'' threeTabs) = ''b''
   \<and> closeTab ''zz'' threeTabs = threeTabs"
proof -
  have unknown: "''zz'' \<notin> set (map tab_id (tabs threeTabs))"
    by (simp add: threeTabs_def tabA_def tabB_def tabC_def)
  have absent: "''zz'' \<noteq> activeTabId threeTabs
      \<and> map_of (getAllStates (explorerStateStore threeTabs)) ''zz'' = None
      \<and> map_of (selectionStates threeTabs) ''zz'' = None"
    by (simp add: threeTabs_def getAllStates_absent)
  note ops = unknown_id_operations [OF unknown, of 9 "''New''" "''/jobs''" "''a''"]
  note r1 = ops [THEN conjunct2]
  note r2 = r1 [THEN conjunct2]
  note r3 = r2 [THEN conjunct2]
  note r4 = r3 [THEN conjunct2]
  note r5 = r4 [THEN conjunct2]
  note r6 = r5 [THEN conjunct2]
  note r7 = r6 [THEN conjunct2]
  note r8 = r7 [THEN conjunct2]
  note r9 = r8 [THEN conjunct2]
  note r10 = r9 [THEN conjunct2]
  note frame = r1 [THEN conjunct1] r2 [THEN conjunct1] r3 [THEN conjunct1] r4 [THEN conjunct1]
    r5 [THEN conjunct1]
  from r7 [THEN conjunct1] absent have pointer: "activeTabId (closeTab ''zz'' threeTabs) = ''b''"
    by (simp add: threeTabs_def)
  have closed: "closeTab ''zz'' threeTabs = threeTabs"
    by (rule mp [OF r10 [THEN conjunct2] absent])
  from unknown frame pointer closed show ?thesis
    by (intro conjI)
qed

text \<open>On a manager with one tab, \<open>closeTab\<close> of that tab keeps the tab list and the
  active tab id, and runs both clean-ups.\<close>

lemma closeTab_single_tab:
  assumes "tabs s = [t]"
  shows "closeTab (tab_id t) s =
     s\<lparr> explorerStateStore := snd (deleteState (tab_id t) (explorerStateStore s)),
         selectionStates := AList.delete (tab_id t) (selectionStates s) \<rparr>"
  using assms by (simp add: closeTab_def closeTabUpdater_def Let_def)

text \<open>
  Claim C3 does not hold of the code. On the manager whose only tab is \<open>a\<close>,
  \<open>closeTab('a')\<close> keeps the tab list and the active tab id, but the two clean-ups
  after \<open>setTabs\<close> run all the same: the explorer state stored for \<open>a\<close> (list view) is
  deleted, so that \<open>getExplorerState('a')\<close> gives the default (grid view) afterwards, and
  the selection of \<open>a\<close> is deleted.
\<close>

theorem closeTab_last_tab_clears_its_stores:
  "tabs oneTab = [tabA]
   \<and> tabs (closeTab ''a'' oneTab) = tabs oneTab
   \<and> activeTabId (closeTab ''a'' oneTab) = activeTabId oneTab
   \<and> getExplorerState oneTab ''a'' = listView
   \<and> getExplorerState (closeTab ''a'' oneTab) ''a'' = DEFAULT_EXPLORER_STATE
   \<and> viewMode listView \<noteq> viewMode DEFAULT_EXPLORER_STATE
   \<and> getAllStates (explorerStateStore oneTab) = [(''a'', listView)]
   \<and> getAllStates (explorerStateStore (closeTab ''a'' oneTab)) = []
   \<and> getSelectionIds oneTab ''a'' = [''file-1'']
   \<and> getSelectionIds (closeTab ''a'' oneTab) ''a'' = []"
proof -
  have order: "propertyOrder units [(''a'', v)] = [(''a'', v)]"
    "propertyOrder units ([] :: (string \<times> TabExplorerState) list) = []"
    for v :: TabExplorerState
    by (simp_all add: propertyOrder_def arrayIndex_def units_def code_def isDigit_def)
  show ?thesis
    by (simp add: closeTab_def closeTabUpdater_def oneTab_def tabA_def Let_def
        getExplorerState_def getState_def deleteState_def getSelectionIds_def listView_def
        DEFAULT_EXPLORER_STATE_def getAllStates_def order)
qed

theorem closeTab_last_tab_clears_its_stores_witness:
  "closeTab ''a'' oneTab \<noteq> oneTab"
proof
  assume "closeTab ''a'' oneTab = oneTab"
  then have same: "getSelectionIds (closeTab ''a'' oneTab) ''a'' = getSelectionIds oneTab ''a''"
    by simp
  from closeTab_last_tab_clears_its_stores
  have before: "getSelectionIds oneTab ''a'' = [''file-1'']"
    and after: "getSelectionIds (closeTab ''a'' oneTab) ''a'' = []"
    by blast+
  from same before after have "[] = [''file-1'']"
    by simp
  then show False
    by simp
qed

section \<open>Properties of the title deriver\<close>

text \<open>
  Claim C9. \<open>deriveTitleFromPath\<close> is a function of its two arguments (it reads
  nothing else: the model is a function of HOL), and on the four documented inputs it
  returns \<open>Favorites\<close>, \<open>Tag: abcdef12...\<close>, \<open>Documents\<close> and \<open>Spacedrive\<close>. The
  third input is
  \<open>'?path=' + encodeURIComponent(JSON.stringify({Physical: {path: '/Users/me/Documents'}}))\<close>.
\<close>

theorem deriveTitleFromPath_documented_examples:
  "deriveTitleFromPath ''/favorites'' '''' = Text ''Favorites''
   \<and> deriveTitleFromPath ''/tag/abcdef1234'' '''' = Text ''Tag: abcdef12...''
   \<and> map_option (\<lambda>s. deriveTitleFromPath ''/explorer'' (''?path='' @ encodeURIComponent s))
        (JSON_stringify documentsSdPath)
       = Some (Text ''Documents'')
   \<and> deriveTitleFromPath ''/unknown-route'' '''' = Text ''Spacedrive''"
  by code_simp

theorem deriveTitleFromPath_documented_examples_witness:
  \<open>JSON_stringify documentsSdPath = Some ''{"Physical":{"path":"/Users/me/Documents"}}''
   \<and> encodeURIComponent ''{"Physical":{"path":"/Users/me/Documents"}}''
       = ''%7B%22Physical%22%3A%7B%22path%22%3A%22%2FUsers%2Fme%2FDocuments%22%7D%7D''
   \<and> deriveTitleFromPath ''/explorer''
        ''?path=%7B%22Physical%22%3A%7B%22path%22%3A%22%2FUsers%2Fme%2FDocuments%22%7D%7D''
       = Text ''Documents''\<close>
proof -
  have stringified: \<open>JSON_stringify documentsSdPath
      = Some ''{"Physical":{"path":"/Users/me/Documents"}}''\<close>
    by code_simp
  have enc: \<open>encodeURIComponent ''{"Physical":{"path":"/Users/me/Documents"}}''
      = ''%7B%22Physical%22%3A%7B%22path%22%3A%22%2FUsers%2Fme%2FDocuments%22%7D%7D''\<close>
    by code_simp
  from deriveTitleFromPath_documented_examples
  have "map_option
          (\<lambda>s. deriveTitleFromPath ''/explorer'' (''?path='' @ encodeURIComponent s))
          (JSON_stringify documentsSdPath)
      = Some (Text ''Documents'')"
    by (elim conjE)
  then have \<open>deriveTitleFromPath ''/explorer''
      ''?path=%7B%22Physical%22%3A%7B%22path%22%3A%22%2FUsers%2Fme%2FDocuments%22%7D%7D''
      = Text ''Documents''\<close>
    unfolding stringified option.map enc by simp
  with stringified enc show ?thesis
    by (intro conjI)
qed

section \<open>Properties of the persistence loader\<close>

text \<open>What \<open>loadPersistedState\<close> rejects: a throwing or empty storage slot, a text
  that does not parse, \<open>null\<close>, and a value whose \<open>tabs\<close> is not an array, whose
  \<open>activeTabId\<close> is not a string or whose \<open>explorerStates\<close> has a \<open>typeof\<close> other
  than \<open>'object'\<close>.\<close>

lemma loadPersistedState_rejects:
  shows "loadPersistedState (Inl e) = None"
    and "loadPersistedState (Inr None) = None"
    and "loadPersistedState (Inr (Some [])) = None"
    and "JSON_parse stored = None \<Longrightarrow> loadPersistedState (Inr (Some stored)) = None"
    and "JSON_parse stored = Some parsed \<Longrightarrow>
           \<not> isArray (getProp parsed ''tabs'')
           \<or> typeOf (getProp parsed ''activeTabId'') \<noteq> ''string''
           \<or> typeOf (getProp parsed ''explorerStates'') \<noteq> ''object''
           \<Longrightarrow> loadPersistedState (Inr (Some stored)) = None"
  by (auto simp: loadPersistedState_def split: json.splits)

text \<open>What it accepts: the test on \<open>explorerStates\<close> is \<open>typeof ... !== 'object'\<close>,
  which an object passes, and so do an array and \<open>null\<close>.\<close>

lemma loadPersistedState_accepts:
  assumes "loadPersistedState getItem = Some parsed"
  shows "(\<exists>ts. getProp parsed ''tabs'' = Some (JArr ts))
    \<and> (\<exists>a. getProp parsed ''activeTabId'' = Some (JStr a))
    \<and> (getProp parsed ''explorerStates'' = Some JNull
        \<or> (\<exists>xs. getProp parsed ''explorerStates'' = Some (JArr xs))
        \<or> (\<exists>ms. getProp parsed ''explorerStates'' = Some (JObj ms)))"
proof -
  from assms have ok: "isArray (getProp parsed ''tabs'')"
    "typeOf (getProp parsed ''activeTabId'') = ''string''"
    "typeOf (getProp parsed ''explorerStates'') = ''object''"
    by (auto simp: loadPersistedState_def split: sum.splits option.splits if_splits json.splits)
  from ok(1) have "\<exists>ts. getProp parsed ''tabs'' = Some (JArr ts)"
    by (auto simp: isArray_def split: option.splits json.splits)
  moreover from ok(2) have "\<exists>a. getProp parsed ''activeTabId'' = Some (JStr a)"
    by (auto simp: typeOf_def split: option.splits json.splits)
  moreover from ok(3) have "getProp parsed ''explorerStates'' = Some JNull
        \<or> (\<exists>xs. getProp parsed ''explorerStates'' = Some (JArr xs))
        \<or> (\<exists>ms. getProp parsed ''explorerStates'' = Some (JObj ms))"
    by (auto simp: typeOf_def split: option.splits json.splits)
  ultimately show ?thesis by blast
qed

text \<open>Without a snapshot the provider starts with the one synthesized tab at
  \<open>/\<close>.\<close>

lemma mount_without_snapshot:
  assumes "loadPersistedState getItem = None"
  shows "mount getItem newId now store =
     Mounted \<lparr> tabs = [\<lparr> tab_id = newId, title = Text ''Overview'', icon = None,
                          isPinned = False, lastActive = now, savedPath = ''/'' \<rparr>],
               activeTabId = newId,
               selectionStates = [(newId, [])],
               defaultNewTabPath = ''/'',
               explorerStateStore = snd (setState newId DEFAULT_EXPLORER_STATE store) \<rparr>"
  using assms
  by (simp add: mount_def tabsInitialiser_def activeTabIdInitialiser_def firstId_def
      declaredType_def mountAtDeclaredTypes_def initialTabs_def initialActiveTabId_def
      firstTabId_def initialStore_def initialDefaultNewTabPath_def freshTab_def Let_def)

lemma tabs_not_array_rejected: "loadPersistedState (Inr (Some storedTabsNotArray)) = None"
  by code_simp

text \<open>
  Claim C7 does not hold of the code. A snapshot whose \<open>explorerStates\<close> is \<open>null\<close>
  is not a keyed mapping, but \<open>typeof null\<close> is \<open>'object'\<close>: \<open>loadPersistedState\<close>
  returns the parsed snapshot, and mounting adopts its tab \<open>a\<close> where the claim has the
  synthesized default tab (whose id would be the fresh one).
\<close>

theorem loadPersistedState_accepts_null_explorerStates:
  "loadPersistedState (Inr (Some storedNullStates)) = Some nullStatesSnapshot
   \<and> getProp nullStatesSnapshot ''explorerStates'' = Some JNull
   \<and> asPersistedState nullStatesSnapshot = Some nullStatesPersisted
   \<and> map_sum id tabs
        (mountAtDeclaredTypes (Some nullStatesPersisted) ''fresh'' 5 newExplorerStateStore)
       = Inr [tabA]
   \<and> map_sum id activeTabId
        (mountAtDeclaredTypes (Some nullStatesPersisted) ''fresh'' 5 newExplorerStateStore)
       = Inr ''a''
   \<and> mount (Inr (Some storedNullStates)) ''fresh'' 5 newExplorerStateStore
       = Mounted \<lparr> tabs = [tabA], activeTabId = ''a'', selectionStates = [(''a'', [])],
                   defaultNewTabPath = ''/'',
                   explorerStateStore =
                     \<lparr> states = [(''a'', DEFAULT_EXPLORER_STATE)], listeners = [] \<rparr> \<rparr>"
  by code_simp

theorem loadPersistedState_accepts_null_explorerStates_witness:
  "loadPersistedState (Inr (Some storedNullStates)) \<noteq> None"
  using loadPersistedState_accepts_null_explorerStates by simp


end

